theory Spec2Isabelle
  imports Complex_Main "HOL-Library.Sublist"
begin

section \<open>JavaScript values as the client script observes them\<close>

text \<open>
  The client is \<^verbatim>\<open>static/script.js\<close>. A JavaScript number is a finite value, one of the
  two infinities, or NaN. Finite values are modelled as reals, and the decimal literals
  \<^verbatim>\<open>0.8\<close> and \<^verbatim>\<open>0.5\<close> of the script as the reals \<open>4/5\<close> and \<open>1/2\<close>. The engine's numbers
  are binary64 values \<open>m \<cdot> 2\<^sup>e\<close> with \<open>\<bar>m\<bar> < 2\<^sup>5\<^sup>3\<close>, and its literal \<^verbatim>\<open>0.8\<close> is the
  binary64 value nearest to \<open>4/5\<close>; on binary64 values the two thresholds accept the same
  numbers (shown below), and \<open>1/2\<close> is itself a binary64 value.
\<close>

datatype jsnum = Fin real | PosInf | NegInf | NaN

text \<open>\<^verbatim>\<open>x >= c\<close> and \<^verbatim>\<open>x > c\<close> for a number \<open>x\<close> and a finite literal \<open>c\<close>: every comparison
  with NaN is false.\<close>

fun num_ge :: "jsnum \<Rightarrow> real \<Rightarrow> bool" where
  "num_ge (Fin x) c = (c \<le> x)"
| "num_ge PosInf c = True"
| "num_ge NegInf c = False"
| "num_ge NaN c = False"

fun num_gt :: "jsnum \<Rightarrow> real \<Rightarrow> bool" where
  "num_gt (Fin x) c = (c < x)"
| "num_gt PosInf c = True"
| "num_gt NegInf c = False"
| "num_gt NaN c = False"

definition binary64_value :: "int \<Rightarrow> int \<Rightarrow> real" where
  "binary64_value m e = of_int m * 2 powr of_int e"

definition literal_08 :: real where
  "literal_08 = binary64_value 7205759403792794 (- 53)"

text \<open>A value as \<^verbatim>\<open>response.json()\<close> yields it, or as a property read yields it
  (\<open>Undefined\<close> for a property that is not there). An object is the list of its own
  properties, with distinct keys.\<close>

datatype jsval =
    Undefined
  | Null
  | Bool bool
  | Number jsnum
  | String string
  | Array "jsval list"
  | Object "(string \<times> jsval) list"

text \<open>Truthiness, as \<^verbatim>\<open>!v\<close>, \<^verbatim>\<open>a || b\<close> and \<^verbatim>\<open>a && b\<close> test it.\<close>

fun truthy :: "jsval \<Rightarrow> bool" where
  "truthy Undefined = False"
| "truthy Null = False"
| "truthy (Bool b) = b"
| "truthy (Number (Fin x)) = (x \<noteq> 0)"
| "truthy (Number NaN) = False"
| "truthy (Number PosInf) = True"
| "truthy (Number NegInf) = True"
| "truthy (String s) = (s \<noteq> [])"
| "truthy (Array xs) = True"
| "truthy (Object kvs) = True"

section \<open>Score colour\<close>

definition success_color :: string where "success_color = ''var(--success-color)''"
definition warning_color :: string where "warning_color = ''var(--warning-color)''"
definition danger_color :: string where "danger_color = ''var(--danger-color)''"

text \<open>
  \<^verbatim>\<open>
  function getScoreColor(score) {
      if (score >= 0.8) return 'var(--success-color)';
      if (score >= 0.5) return 'var(--warning-color)';
      return 'var(--danger-color)';
  }
  \<close>
  The spec calls the three results favorable, caution and unfavorable.
\<close>

definition getScoreColor :: "jsnum \<Rightarrow> string" where
  "getScoreColor score =
     (if num_ge score 0.8 then success_color
      else if num_ge score 0.5 then warning_color
      else danger_color)"


section \<open>Text shown on the page\<close>

text \<open>
  Text the script writes to the page. Where a string is the result of engine arithmetic
  or is engine wording, it stays symbolic: \<open>NumberText n\<close> is the string of the number
  \<open>n\<close>, \<open>Percent v\<close> is \<^verbatim>\<open>(v * 100).toFixed(0)\<close>, and \<open>Engine d\<close> is the engine's message
  for the condition \<open>d\<close>.
\<close>

datatype dtext =
    Lit string
  | NumberText jsnum
  | Percent jsval
  | Engine string
  | Cat dtext dtext

fun cat :: "dtext \<Rightarrow> dtext \<Rightarrow> dtext" where
  "cat (Lit a) (Lit b) = Lit (a @ b)"
| "cat a b = Cat a b"

section \<open>Exceptions, conversions and property reads\<close>

text \<open>A thrown or rejected value, by its \<^verbatim>\<open>message\<close>.\<close>

datatype jsexn = JsError dtext

fun message :: "jsexn \<Rightarrow> dtext" where
  "message (JsError m) = m"

datatype completion = Normal | Threw jsexn

text \<open>The TypeError of a conversion to a primitive value that finds no usable
  \<^verbatim>\<open>toString\<close> or \<^verbatim>\<open>valueOf\<close>.\<close>

definition primitive_type_error :: jsexn where
  "primitive_type_error =
     JsError (Engine ''TypeError: cannot convert object to primitive value'')"

text \<open>Joining the strings of an array's elements with commas.\<close>

fun comma_join :: "dtext list \<Rightarrow> dtext" where
  "comma_join [] = Lit []"
| "comma_join [t] = t"
| "comma_join (t # u # us) = cat (cat t (Lit '','')) (comma_join (u # us))"

text \<open>
  String conversion, as a template literal, \<^verbatim>\<open>new Error(m)\<close> and the \<^verbatim>\<open>src\<close> setter perform
  it. A parsed object inherits \<^verbatim>\<open>toString\<close>, which gives \<^verbatim>\<open>[object Object]\<close>, unless it has
  an own property of that name: a parsed value is never callable, the inherited
  \<^verbatim>\<open>valueOf\<close> returns the object itself, and the conversion throws a TypeError. An array is
  converted by joining the strings of its elements, \<^verbatim>\<open>null\<close> and \<^verbatim>\<open>undefined\<close> giving the
  empty string; the first element that throws ends the conversion.
\<close>

fun js_string :: "jsval \<Rightarrow> jsexn + dtext"
  and js_strings :: "jsval list \<Rightarrow> jsexn + dtext list" where
  "js_string Undefined = Inr (Lit ''undefined'')"
| "js_string Null = Inr (Lit ''null'')"
| "js_string (Bool b) = Inr (Lit (if b then ''true'' else ''false''))"
| "js_string (Number n) = Inr (NumberText n)"
| "js_string (String s) = Inr (Lit s)"
| "js_string (Object kvs) =
     (if ''toString'' \<in> set (map fst kvs) then Inl primitive_type_error
      else Inr (Lit ''[object Object]''))"
| "js_string (Array xs) =
     (case js_strings xs of Inl e \<Rightarrow> Inl e | Inr ts \<Rightarrow> Inr (comma_join ts))"
| "js_strings [] = Inr []"
| "js_strings (Undefined # xs) =
     (case js_strings xs of Inl e \<Rightarrow> Inl e | Inr ts \<Rightarrow> Inr (Lit [] # ts))"
| "js_strings (Null # xs) =
     (case js_strings xs of Inl e \<Rightarrow> Inl e | Inr ts \<Rightarrow> Inr (Lit [] # ts))"
| "js_strings (x # xs) =
     (case js_string x of
        Inl e \<Rightarrow> Inl e
      | Inr t \<Rightarrow> (case js_strings xs of Inl e \<Rightarrow> Inl e | Inr ts \<Rightarrow> Inr (t # ts)))"

text \<open>The \<^verbatim>\<open>textContent\<close> setter: \<^verbatim>\<open>null\<close> and \<^verbatim>\<open>undefined\<close> give the empty text, every other
  value is converted to a string.\<close>

fun text_content :: "jsval \<Rightarrow> jsexn + dtext" where
  "text_content Null = Inr (Lit [])"
| "text_content Undefined = Inr (Lit [])"
| "text_content v = js_string v"

text \<open>
  \<^verbatim>\<open>v.k\<close>, for the keys the script reads (none of them is inherited by a parsed object):
  a TypeError on \<^verbatim>\<open>undefined\<close> and \<^verbatim>\<open>null\<close>, the own property of an object, \<^verbatim>\<open>length\<close> of
  an array or a string, and \<^verbatim>\<open>undefined\<close> otherwise.
\<close>

fun get_prop :: "jsval \<Rightarrow> string \<Rightarrow> jsexn + jsval" where
  "get_prop Undefined k = Inl (JsError (Engine (''TypeError: cannot read '' @ k @ '' of undefined'')))"
| "get_prop Null k = Inl (JsError (Engine (''TypeError: cannot read '' @ k @ '' of null'')))"
| "get_prop (Object kvs) k = Inr (case map_of kvs k of None \<Rightarrow> Undefined | Some v \<Rightarrow> v)"
| "get_prop (Array xs) k =
     Inr (if k = ''length'' then Number (Fin (real (length xs))) else Undefined)"
| "get_prop (String s) k =
     Inr (if k = ''length'' then Number (Fin (real (length s))) else Undefined)"
| "get_prop (Bool b) k = Inr Undefined"
| "get_prop (Number n) k = Inr Undefined"

text \<open>
  The number a string denotes: the empty string denotes 0; the value of any other string
  is the engine's string-to-number parsing and is not modelled (\<open>None\<close>).
\<close>

definition string_number :: "string \<Rightarrow> jsnum option" where
  "string_number s = (if s = [] then Some (Fin 0) else None)"

text \<open>
  Conversion to a number, as \<^verbatim>\<open>>=\<close>, \<^verbatim>\<open>>\<close> and \<^verbatim>\<open>*\<close> perform it on a non-number. An object or
  an array is first converted to a primitive, which is its string (the inherited
  \<^verbatim>\<open>valueOf\<close> returns the object itself) or the same TypeError.
\<close>

fun to_number :: "jsval \<Rightarrow> jsexn + jsnum option" where
  "to_number Undefined = Inr (Some NaN)"
| "to_number Null = Inr (Some (Fin 0))"
| "to_number (Bool b) = Inr (Some (Fin (if b then 1 else 0)))"
| "to_number (Number n) = Inr (Some n)"
| "to_number (String s) = Inr (string_number s)"
| "to_number (Object kvs) =
     (case js_string (Object kvs) of Inl e \<Rightarrow> Inl e | Inr t \<Rightarrow> Inr (Some NaN))"
| "to_number (Array xs) =
     (case js_string (Array xs) of
        Inl e \<Rightarrow> Inl e
      | Inr t \<Rightarrow> Inr (case t of Lit s \<Rightarrow> string_number s | _ \<Rightarrow> None))"

text \<open>\<^verbatim>\<open>v > 0\<close>.\<close>

definition js_gt0 :: "jsval \<Rightarrow> jsexn + bool option" where
  "js_gt0 v =
     (case to_number v of Inl e \<Rightarrow> Inl e | Inr n \<Rightarrow> Inr (map_option (\<lambda>x. num_gt x 0) n))"

text \<open>\<^verbatim>\<open>(v * 100).toFixed(0)\<close>: the multiplication converts \<open>v\<close> to a number.\<close>

definition percent :: "jsval \<Rightarrow> jsexn + dtext" where
  "percent v = (case to_number v of Inl e \<Rightarrow> Inl e | Inr n \<Rightarrow> Inr (Percent v))"

text \<open>A \<^verbatim>\<open>background-color\<close>: \<^verbatim>\<open>getScoreColor(v)\<close>, symbolic where the number \<open>v\<close> converts to
  is not modelled.\<close>

datatype color = Css string | CoercedScoreColor jsval

definition score_color :: "jsval \<Rightarrow> jsexn + color" where
  "score_color v =
     (case to_number v of
        Inl e \<Rightarrow> Inl e
      | Inr (Some n) \<Rightarrow> Inr (Css (getScoreColor n))
      | Inr None \<Rightarrow> Inr (CoercedScoreColor v))"

section \<open>Files, requests and responses\<close>

record jsfile =
  file_name :: string
  file_type :: string
  file_data :: string

datatype req_body = FormData "(string \<times> jsfile) list" | JsonStringify jsval

record request =
  url :: string
  http_method :: string
  headers :: "(string \<times> string) list"
  body :: req_body

text \<open>What \<^verbatim>\<open>await response.json()\<close> gives: the parsed body, or a rejection with a message.\<close>

datatype json_outcome = JsonParsed jsval | JsonRejected string

record response =
  status :: nat
  body_json :: json_outcome

text \<open>\<^verbatim>\<open>response.ok\<close>: the status is in the range 200 to 299.\<close>

definition response_ok :: "response \<Rightarrow> bool" where
  "response_ok r = (200 \<le> status r \<and> status r \<le> 299)"

text \<open>What \<^verbatim>\<open>await fetch(...)\<close> gives: a response, or a rejection with a message (the
  request never completed).\<close>

datatype fetch_outcome = FetchRejected string | FetchResolved response

section \<open>The page and the script's variables\<close>

text \<open>An inline \<^verbatim>\<open>style.display\<close>; \<open>Stylesheet\<close> when the script has not set it.\<close>

datatype display = Stylesheet | DisplayNone | DisplayFlex | DisplayBlock

record score_card =
  card_title :: string
  badge_color :: color
  badge_text :: dtext
  card_feedback :: dtext

text \<open>
  The script's two variables, the properties of the page's elements that it writes, and
  its effects on the outside: alerts, console errors, the requests issued by \<^verbatim>\<open>fetch\<close>
  (\<open>fetch_log\<close>) and those of them that have not settled yet (\<open>pending\<close>).
\<close>

record state =
  imageFile :: "jsfile option"
  currentRefinementPlan :: jsval
  file_name_text :: dtext
  submit_disabled :: bool
  regenerate_disabled :: bool
  regenerate_display :: display
  drag_over :: bool
  results_placeholder_display :: display
  placeholder_title :: dtext
  placeholder_text :: dtext
  results_content_display :: display
  images_results_section_display :: display
  loader_display :: display
  regenerated_image_loader_display :: display
  regenerated_image_display :: display
  regenerated_image_src :: dtext
  regenerated_image_placeholder_display :: display
  original_image_src :: dtext
  results_title :: dtext
  overall_score_text :: dtext
  overall_score_background :: color
  scorecard_container :: "score_card list"
  strengths_list :: "dtext list"
  refinement_plan_text :: dtext
  alerts :: "string list"
  console_errors :: "(string \<times> jsexn) list"
  fetch_log :: "request list"
  pending :: "request list"

text \<open>
  \<^verbatim>\<open>
  let imageFile = null;
  let currentRefinementPlan = null;
  \<close>
  on a page \<open>d\<close> as the markup and the stylesheet give it; nothing has happened yet.
\<close>

definition page_load :: "state \<Rightarrow> state" where
  "page_load d =
     d\<lparr>imageFile := None, currentRefinementPlan := Null, alerts := [],
       console_errors := [], fetch_log := [], pending := []\<rparr>"

section \<open>File intake\<close>

text \<open>
  \<^verbatim>\<open>
  function handleFile(file) {
      if (file && file.type.startsWith('image/')) {
          imageFile = file;
          fileNameDisplay.textContent = file.name;
          submitButton.disabled = false;
      } else {
          imageFile = null;
          fileNameDisplay.textContent = 'Please select a valid image file.';
          submitButton.disabled = true;
      }
  }
  \<close>
  \<open>None\<close> is a \<^verbatim>\<open>null\<close> or \<^verbatim>\<open>undefined\<close> argument. No operation of the function can throw,
  so its result is a state.
\<close>

definition rejection_text :: string where
  "rejection_text = ''Please select a valid image file.''"

definition handleFile :: "jsfile option \<Rightarrow> state \<Rightarrow> state" where
  "handleFile fo s =
     (case fo of
        Some f \<Rightarrow>
          if prefix ''image/'' (file_type f)
          then s\<lparr>imageFile := Some f, file_name_text := Lit (file_name f),
                 submit_disabled := False\<rparr>
          else s\<lparr>imageFile := None, file_name_text := Lit rejection_text,
                 submit_disabled := True\<rparr>
      | None \<Rightarrow>
          s\<lparr>imageFile := None, file_name_text := Lit rejection_text,
            submit_disabled := True\<rparr>)"

text \<open>The \<^verbatim>\<open>change\<close> handler of the picker and the drag-and-drop handlers:
  \<^verbatim>\<open>const file = ...files[0]; if (file) { handleFile(file); }\<close>.\<close>

definition image_upload_change :: "jsfile option \<Rightarrow> state \<Rightarrow> state" where
  "image_upload_change fo s = (case fo of Some f \<Rightarrow> handleFile (Some f) s | None \<Rightarrow> s)"

definition upload_area_dragover :: "state \<Rightarrow> state" where
  "upload_area_dragover s = s\<lparr>drag_over := True\<rparr>"

definition upload_area_dragleave :: "state \<Rightarrow> state" where
  "upload_area_dragleave s = s\<lparr>drag_over := False\<rparr>"

definition upload_area_drop :: "jsfile option \<Rightarrow> state \<Rightarrow> state" where
  "upload_area_drop fo s =
     (let s1 = s\<lparr>drag_over := False\<rparr>
      in case fo of Some f \<Rightarrow> handleFile (Some f) s1 | None \<Rightarrow> s1)"


section \<open>Loading, error and result display\<close>

text \<open>
  \<^verbatim>\<open>
  function showLoadingState() {
      document.getElementById('results-placeholder').style.display = 'none';
      document.getElementById('results-content').style.display = 'none';
      document.getElementById('images-results-section').style.display = 'none';
      document.getElementById('loader').style.display = 'flex';
      regenerateButton.style.display = 'none';
  }
  \<close>
\<close>

definition showLoadingState :: "state \<Rightarrow> state" where
  "showLoadingState s =
     s\<lparr>results_placeholder_display := DisplayNone,
       results_content_display := DisplayNone,
       images_results_section_display := DisplayNone,
       loader_display := DisplayFlex,
       regenerate_display := DisplayNone\<rparr>"

text \<open>
  \<^verbatim>\<open>
  function showErrorState(message) {
      document.getElementById('loader').style.display = 'none';
      const placeholder = document.getElementById('results-placeholder');
      placeholder.style.display = 'flex';
      placeholder.querySelector('.placeholder-title').textContent = 'Analysis Failed';
      placeholder.querySelector('.placeholder-text').textContent = message;
  }
  \<close>
\<close>

definition showErrorState :: "dtext \<Rightarrow> state \<Rightarrow> state" where
  "showErrorState msg s =
     s\<lparr>loader_display := DisplayNone,
       results_placeholder_display := DisplayFlex,
       placeholder_title := Lit ''Analysis Failed'',
       placeholder_text := msg\<rparr>"

text \<open>
  \<^verbatim>\<open>
  function displayRegeneratedImage(imageUrl) {
      ...
      regenLoader.style.display = 'none';
      regenPlaceholder.style.display = 'none';
      regenImage.src = imageUrl;
      regenImage.style.display = 'block';
  }
  \<close>
  The \<^verbatim>\<open>src\<close> setter converts its argument to a string, which can throw.
\<close>

definition displayRegeneratedImage :: "jsval \<Rightarrow> state \<Rightarrow> state \<times> completion" where
  "displayRegeneratedImage imageUrl s =
     (let s1 = s\<lparr>regenerated_image_loader_display := DisplayNone,
                 regenerated_image_placeholder_display := DisplayNone\<rparr>
      in case js_string imageUrl of
           Inl e \<Rightarrow> (s1, Threw e)
         | Inr src \<Rightarrow>
             (s1\<lparr>regenerated_image_src := src,
                 regenerated_image_display := DisplayBlock\<rparr>, Normal))"

text \<open>
  A step of a function body that reads a property or converts a value: when it throws,
  the body stops with the state reached so far. The result of a body is \<open>None\<close> where it
  depends on a conversion that is not modelled (\<open>string_number\<close>).
\<close>

definition on_read ::
  "jsexn + 'a \<Rightarrow> state \<Rightarrow> ('a \<Rightarrow> (state \<times> completion) option)
     \<Rightarrow> (state \<times> completion) option" where
  "on_read r s k = (case r of Inl e \<Rightarrow> Some (s, Threw e) | Inr v \<Rightarrow> k v)"

text \<open>
  The loop over the four score cards (lines 177 to 192):
  \<^verbatim>\<open>
  for (const [title, details] of Object.entries(scorecardData)) {
      const card = document.createElement('div');
      card.className = 'score-card';
      const scoreValue = details.score;
      const scoreColor = getScoreColor(scoreValue);
      card.innerHTML = `... ${title} ... ${scoreColor} ... ${(scoreValue * 100).toFixed(0)}
                        ... ${details.feedback} ...`;
      scorecardContainer.appendChild(card);
  }
  \<close>
  A card is recorded by the four strings interpolated into its markup.
\<close>

fun render_cards :: "(string \<times> jsval) list \<Rightarrow> state \<Rightarrow> (state \<times> completion) option" where
  "render_cards [] s = Some (s, Normal)"
| "render_cards ((title, details) # rest) s =
     on_read (get_prop details ''score'') s (\<lambda>scoreValue.
     on_read (score_color scoreValue) s (\<lambda>scoreColor.
     on_read (percent scoreValue) s (\<lambda>scoreText.
     on_read (get_prop details ''feedback'') s (\<lambda>feedback.
     on_read (js_string feedback) s (\<lambda>feedbackText.
       render_cards rest
         (s\<lparr>scorecard_container := scorecard_container s @
              [\<lparr>card_title = title, badge_color = scoreColor,
                badge_text = scoreText, card_feedback = feedbackText\<rparr>]\<rparr>))))))"

text \<open>
  The strengths panel (lines 195 to 205):
  \<^verbatim>\<open>
  strengthsList.innerHTML = '';
  if (data.scorecard.strengths && data.scorecard.strengths.length > 0) {
      data.scorecard.strengths.forEach(strength => {
          const li = document.createElement('li');
          li.textContent = strength;
          strengthsList.appendChild(li);
      });
  } else {
      strengthsList.innerHTML = '<li>No specific strengths identified.</li>';
  }
  \<close>
  Only an array has \<^verbatim>\<open>forEach\<close>; on any other value the call throws a TypeError.
\<close>

definition no_strengths_text :: string where
  "no_strengths_text = ''No specific strengths identified.''"

text \<open>The body of \<^verbatim>\<open>forEach\<close>, element by element.\<close>

fun append_strengths :: "jsval list \<Rightarrow> state \<Rightarrow> state \<times> completion" where
  "append_strengths [] s = (s, Normal)"
| "append_strengths (strength # rest) s =
     (case text_content strength of
        Inl e \<Rightarrow> (s, Threw e)
      | Inr t \<Rightarrow> append_strengths rest (s\<lparr>strengths_list := strengths_list s @ [t]\<rparr>))"

definition render_strengths :: "jsval \<Rightarrow> state \<Rightarrow> (state \<times> completion) option" where
  "render_strengths strengths s =
     (let s1 = s\<lparr>strengths_list := []\<rparr>;
          fallback = Some (s1\<lparr>strengths_list := [Lit no_strengths_text]\<rparr>, Normal)
      in if truthy strengths
         then on_read (get_prop strengths ''length'') s1 (\<lambda>len.
              on_read (js_gt0 len) s1 (\<lambda>positive.
                case positive of
                  None \<Rightarrow> None
                | Some False \<Rightarrow> fallback
                | Some True \<Rightarrow>
                    (case strengths of
                       Array xs \<Rightarrow> Some (append_strengths xs s1)
                     | _ \<Rightarrow>
                         Some (s1, Threw (JsError (Engine
                           ''TypeError: data.scorecard.strengths.forEach is not a function''))))))
         else fallback)"

text \<open>
  \<^verbatim>\<open>function displayCritiqueResults(data)\<close>, statement by statement, in three parts. The
  first is lines 139 to 192, up to and including the score cards; the refinement plan is
  stored at line 148, before the scorecard is read.
\<close>

definition render_before_strengths :: "jsval \<Rightarrow> state \<Rightarrow> (state \<times> completion) option" where
  "render_before_strengths data s =
     (let s1 = s\<lparr>loader_display := DisplayNone,
                 results_placeholder_display := DisplayNone,
                 images_results_section_display := DisplayBlock,
                 results_content_display := DisplayBlock\<rparr>
      in on_read (get_prop data ''refinement_plan'') s1 (\<lambda>plan.
         let s2 = s1\<lparr>currentRefinementPlan := plan\<rparr>
         in on_read (get_prop data ''original_image'') s2 (\<lambda>original.
            on_read (js_string original) s2 (\<lambda>src.
         let s3 = s2\<lparr>original_image_src := src,
                     regenerated_image_display := DisplayNone,
                     regenerated_image_placeholder_display := DisplayFlex\<rparr>
         in on_read (get_prop data ''brand_name'') s3 (\<lambda>brand.
            on_read (js_string brand) s3 (\<lambda>brandText.
         let s4 = s3\<lparr>results_title := cat (Lit ''Critique for '') brandText\<rparr>
         in on_read (get_prop data ''scorecard'') s4 (\<lambda>scorecard.
            on_read (get_prop scorecard ''overall_score'') s4 (\<lambda>overallScore.
            on_read (percent overallScore) s4 (\<lambda>overallText.
         let s5 = s4\<lparr>overall_score_text := overallText\<rparr>
         in on_read (score_color overallScore) s5 (\<lambda>overallColor.
         let s6 = s5\<lparr>overall_score_background := overallColor,
                     scorecard_container := []\<rparr>
         in on_read (get_prop scorecard ''brand_alignment'') s6 (\<lambda>ba.
            on_read (get_prop scorecard ''visual_quality'') s6 (\<lambda>vq.
            on_read (get_prop scorecard ''message_clarity'') s6 (\<lambda>mc.
            on_read (get_prop scorecard ''safety_ethics'') s6 (\<lambda>se.
            render_cards
              [(''Brand Alignment'', ba), (''Visual Quality'', vq),
               (''Message Clarity'', mc), (''Safety & Ethics'', se)] s6))))))))))))))"

text \<open>The last part is lines 208 to 212: the plan's text, read from \<open>data\<close> again, and the
  regenerate button.\<close>

definition render_after_strengths :: "jsval \<Rightarrow> state \<Rightarrow> (state \<times> completion) option" where
  "render_after_strengths data s =
     on_read (get_prop data ''refinement_plan'') s (\<lambda>plan.
     on_read (text_content plan) s (\<lambda>planText.
       Some (s\<lparr>refinement_plan_text := planText, regenerate_display := DisplayBlock\<rparr>,
             Normal)))"

text \<open>The whole function; the strengths panel reads \<^verbatim>\<open>data.scorecard.strengths\<close> again.\<close>

definition displayCritiqueResults :: "jsval \<Rightarrow> state \<Rightarrow> (state \<times> completion) option" where
  "displayCritiqueResults data s =
     (case render_before_strengths data s of
        None \<Rightarrow> None
      | Some (s1, Threw e) \<Rightarrow> Some (s1, Threw e)
      | Some (s1, Normal) \<Rightarrow>
          on_read (get_prop data ''scorecard'') s1 (\<lambda>scorecard.
          on_read (get_prop scorecard ''strengths'') s1 (\<lambda>strengths.
            case render_strengths strengths s1 of
              None \<Rightarrow> None
            | Some (s2, Threw e) \<Rightarrow> Some (s2, Threw e)
            | Some (s2, Normal) \<Rightarrow> render_after_strengths data s2)))"

section \<open>The two requests\<close>

text \<open>\<^verbatim>\<open>fetch(...)\<close> issues a request; it is pending until it settles.\<close>

definition fetch :: "request \<Rightarrow> state \<Rightarrow> state" where
  "fetch r s = s\<lparr>fetch_log := fetch_log s @ [r], pending := pending s @ [r]\<rparr>"

definition evaluate_request :: "jsfile \<Rightarrow> request" where
  "evaluate_request f =
     \<lparr>url = ''/evaluate'', http_method = ''POST'', headers = [],
      body = FormData [(''image'', f)]\<rparr>"

definition regenerate_request :: "jsval \<Rightarrow> request" where
  "regenerate_request plan =
     \<lparr>url = ''/regenerate'', http_method = ''POST'',
      headers = [(''Content-Type'', ''application/json'')],
      body = JsonStringify (Object [(''refinement_plan'', plan)])\<rparr>"

text \<open>The decimal digits of a status code, as the template literal prints it.\<close>

function show_nat :: "nat \<Rightarrow> string" where
  "show_nat n =
     (if n < 10 then [''0123456789'' ! n]
      else show_nat (n div 10) @ [''0123456789'' ! (n mod 10)])"
  by pat_completeness auto
termination
  by (relation "measure id") auto

declare show_nat.simps [simp del]

text \<open>
  Both handlers turn a response that is not ok into a thrown error in the same way:
  \<^verbatim>\<open>
  const errorData = await response.json();
  throw new Error(errorData.detail || `HTTP error! Status: ${response.status}`);
  \<close>
  The result is what the \<^verbatim>\<open>catch\<close> clause receives: the rejection of \<^verbatim>\<open>json()\<close>, the
  TypeError of the property read, or the new error.
\<close>

definition http_error :: "response \<Rightarrow> jsexn" where
  "http_error r =
     (case body_json r of
        JsonRejected m \<Rightarrow> JsError (Lit m)
      | JsonParsed errorData \<Rightarrow>
          (case get_prop errorData ''detail'' of
             Inl e \<Rightarrow> e
           | Inr detail \<Rightarrow>
               (case js_string
                       (if truthy detail then detail
                        else String (''HTTP error! Status: '' @ show_nat (status r))) of
                  Inl e \<Rightarrow> e
                | Inr m \<Rightarrow> JsError m)))"

subsection \<open>Evaluation\<close>

text \<open>
  The click handler of the submit button up to its \<^verbatim>\<open>await fetch\<close> (lines 51 to 66). It
  does not touch \<^verbatim>\<open>submitButton.disabled\<close>.
\<close>

definition submit_click :: "state \<Rightarrow> state" where
  "submit_click s =
     (case imageFile s of
        None \<Rightarrow> s\<lparr>alerts := alerts s @ [''Please select an image first.'']\<rparr>
      | Some f \<Rightarrow> fetch (evaluate_request f) (showLoadingState s))"

text \<open>The \<^verbatim>\<open>catch\<close> clause (lines 76 to 79).\<close>

definition submit_catch :: "jsexn \<Rightarrow> state \<Rightarrow> state" where
  "submit_catch e s =
     showErrorState (cat (Lit ''An error occurred during evaluation: '') (message e))
       (s\<lparr>console_errors := console_errors s @ [(''Error during evaluation API call:'', e)]\<rparr>)"

text \<open>The rest of the handler, once the request has settled (lines 63 to 79).\<close>

definition submit_resume :: "fetch_outcome \<Rightarrow> state \<Rightarrow> state option" where
  "submit_resume outcome s =
     (case outcome of
        FetchRejected m \<Rightarrow> Some (submit_catch (JsError (Lit m)) s)
      | FetchResolved r \<Rightarrow>
          if \<not> response_ok r then Some (submit_catch (http_error r) s)
          else
            (case body_json r of
               JsonRejected m \<Rightarrow> Some (submit_catch (JsError (Lit m)) s)
             | JsonParsed data \<Rightarrow>
                 (case displayCritiqueResults data s of
                    None \<Rightarrow> None
                  | Some (s', Normal) \<Rightarrow> Some s'
                  | Some (s', Threw e) \<Rightarrow> Some (submit_catch e s'))))"

subsection \<open>Regeneration\<close>

text \<open>The click handler of the regenerate button up to its \<^verbatim>\<open>await fetch\<close> (lines 83 to
  102).\<close>

definition no_plan_text :: string where
  "no_plan_text = ''No refinement plan available to generate from.''"

definition regenerate_click :: "state \<Rightarrow> state" where
  "regenerate_click s =
     (if \<not> truthy (currentRefinementPlan s)
      then s\<lparr>alerts := alerts s @ [no_plan_text]\<rparr>
      else fetch (regenerate_request (currentRefinementPlan s))
             (s\<lparr>regenerated_image_loader_display := DisplayFlex,
                regenerated_image_display := DisplayNone,
                regenerate_disabled := True\<rparr>))"

text \<open>The \<^verbatim>\<open>catch\<close> clause (lines 112 to 114) only logs; the \<^verbatim>\<open>finally\<close> clause (lines 115
  to 118) hides the loader and enables the button.\<close>

definition regenerate_catch :: "jsexn \<Rightarrow> state \<Rightarrow> state" where
  "regenerate_catch e s =
     s\<lparr>console_errors := console_errors s @ [(''Error during regeneration API call:'', e)]\<rparr>"

definition regenerate_finally :: "state \<Rightarrow> state" where
  "regenerate_finally s =
     s\<lparr>regenerated_image_loader_display := DisplayNone, regenerate_disabled := False\<rparr>"

definition regenerate_resume :: "fetch_outcome \<Rightarrow> state \<Rightarrow> state" where
  "regenerate_resume outcome s =
     regenerate_finally
       (case outcome of
          FetchRejected m \<Rightarrow> regenerate_catch (JsError (Lit m)) s
        | FetchResolved r \<Rightarrow>
            if \<not> response_ok r then regenerate_catch (http_error r) s
            else
              (case body_json r of
                 JsonRejected m \<Rightarrow> regenerate_catch (JsError (Lit m)) s
               | JsonParsed data \<Rightarrow>
                   (case get_prop data ''regenerated_image_url'' of
                      Inl e \<Rightarrow> regenerate_catch e s
                    | Inr imageUrl \<Rightarrow>
                        (case displayRegeneratedImage imageUrl s of
                           (s', Normal) \<Rightarrow> s'
                         | (s', Threw e) \<Rightarrow> regenerate_catch e s'))))"

section \<open>Events\<close>

text \<open>
  What can happen to the page: the user chooses or drops a file, clicks a button, or a
  pending request settles. A disabled button fires no click; a request settles only while
  it is pending.
\<close>

datatype event =
    FileChosen "jsfile option"
  | DragOver
  | DragLeave
  | Dropped "jsfile option"
  | SubmitClicked
  | RegenerateClicked
  | EvaluateSettled fetch_outcome
  | RegenerateSettled fetch_outcome

definition is_evaluate :: "request \<Rightarrow> bool" where
  "is_evaluate r = (url r = ''/evaluate'')"

definition is_regenerate :: "request \<Rightarrow> bool" where
  "is_regenerate r = (url r = ''/regenerate'')"

text \<open>The evaluation requests in flight.\<close>

definition evaluations_in_flight :: "state \<Rightarrow> nat" where
  "evaluations_in_flight s = length (filter is_evaluate (pending s))"

fun remove_first :: "('a \<Rightarrow> bool) \<Rightarrow> 'a list \<Rightarrow> 'a list" where
  "remove_first P [] = []"
| "remove_first P (x # xs) = (if P x then xs else x # remove_first P xs)"

fun enabled :: "event \<Rightarrow> state \<Rightarrow> bool" where
  "enabled SubmitClicked s = (\<not> submit_disabled s)"
| "enabled RegenerateClicked s = (\<not> regenerate_disabled s)"
| "enabled (EvaluateSettled outcome) s = list_ex is_evaluate (pending s)"
| "enabled (RegenerateSettled outcome) s = list_ex is_regenerate (pending s)"
| "enabled e s = True"

fun handle :: "event \<Rightarrow> state \<Rightarrow> state option" where
  "handle (FileChosen fo) s = Some (image_upload_change fo s)"
| "handle DragOver s = Some (upload_area_dragover s)"
| "handle DragLeave s = Some (upload_area_dragleave s)"
| "handle (Dropped fo) s = Some (upload_area_drop fo s)"
| "handle SubmitClicked s = Some (submit_click s)"
| "handle RegenerateClicked s = Some (regenerate_click s)"
| "handle (EvaluateSettled outcome) s =
     submit_resume outcome (s\<lparr>pending := remove_first is_evaluate (pending s)\<rparr>)"
| "handle (RegenerateSettled outcome) s =
     Some (regenerate_resume outcome (s\<lparr>pending := remove_first is_regenerate (pending s)\<rparr>))"

text \<open>One event; \<open>None\<close> when it cannot happen in this state (or the outcome is outside
  the model).\<close>

definition step :: "event \<Rightarrow> state \<Rightarrow> state option" where
  "step e s = (if enabled e s then handle e s else None)"

fun run :: "event list \<Rightarrow> state \<Rightarrow> state option" where
  "run [] s = Some s"
| "run (e # es) s = (case step e s of None \<Rightarrow> None | Some s' \<Rightarrow> run es s')"

text \<open>
  The refinement plan a settled evaluation request delivers: the \<^verbatim>\<open>refinement_plan\<close>
  property of the parsed body of a response that is ok.
\<close>

definition received_plan :: "fetch_outcome \<Rightarrow> jsval option" where
  "received_plan outcome =
     (case outcome of
        FetchRejected m \<Rightarrow> None
      | FetchResolved r \<Rightarrow>
          if \<not> response_ok r then None
          else
            (case body_json r of
               JsonRejected m \<Rightarrow> None
             | JsonParsed data \<Rightarrow>
                 (case get_prop data ''refinement_plan'' of
                    Inl e \<Rightarrow> None
                  | Inr plan \<Rightarrow> Some plan)))"

text \<open>The plan most recently delivered along a sequence of events, \<open>p\<close> if none was.\<close>

fun last_plan :: "event list \<Rightarrow> jsval \<Rightarrow> jsval" where
  "last_plan [] p = p"
| "last_plan (EvaluateSettled outcome # es) p =
     last_plan es (case received_plan outcome of Some q \<Rightarrow> q | None \<Rightarrow> p)"
| "last_plan (e # es) p = last_plan es p"

section \<open>Outcomes of an evaluation request\<close>

text \<open>
  The ways the script's evaluation request fails without a result being handed to
  \<^verbatim>\<open>displayCritiqueResults\<close>: \<^verbatim>\<open>fetch\<close> rejects, \<^verbatim>\<open>response.ok\<close> is false, or \<^verbatim>\<open>response.json()\<close>
  rejects.
\<close>

fun evaluation_failure :: "fetch_outcome \<Rightarrow> bool" where
  "evaluation_failure (FetchRejected m) = True"
| "evaluation_failure (FetchResolved r) =
     (\<not> response_ok r \<or> (case body_json r of JsonRejected m \<Rightarrow> True | JsonParsed data \<Rightarrow> False))"

fun regeneration_failure :: "fetch_outcome \<Rightarrow> bool" where
  "regeneration_failure (FetchRejected m) = True"
| "regeneration_failure (FetchResolved r) =
     (\<not> response_ok r \<or>
      (case body_json r of
         JsonRejected m \<Rightarrow> True
       | JsonParsed data \<Rightarrow>
           (case get_prop data ''regenerated_image_url'' of Inl e \<Rightarrow> True | Inr u \<Rightarrow> False)))"

text \<open>An event that delivers no refinement plan.\<close>

fun delivers_no_plan :: "event \<Rightarrow> bool" where
  "delivers_no_plan (EvaluateSettled outcome) = (received_plan outcome = None)"
| "delivers_no_plan e = True"

text \<open>
  The failure detail in the spec's words, to compare the script with: the server-supplied
  \<^verbatim>\<open>detail\<close> field (a string) if present, otherwise a generic message with the status code,
  otherwise (no response at all) the transport error's message.
\<close>

definition spec_failure_detail :: "fetch_outcome \<Rightarrow> dtext" where
  "spec_failure_detail outcome =
     (case outcome of
        FetchRejected m \<Rightarrow> Lit m
      | FetchResolved r \<Rightarrow>
          (case body_json r of
             JsonParsed (Object kvs) \<Rightarrow>
               (case map_of kvs ''detail'' of
                  Some (String detail) \<Rightarrow> Lit detail
                | _ \<Rightarrow> Lit (''HTTP error! Status: '' @ show_nat (status r)))
           | _ \<Rightarrow> Lit (''HTTP error! Status: '' @ show_nat (status r))))"

section \<open>Concrete values for the examples\<close>

definition blank_page :: state where
  "blank_page =
     \<lparr>imageFile = None, currentRefinementPlan = Null, file_name_text = Lit [],
      submit_disabled = True, regenerate_disabled = False, regenerate_display = Stylesheet,
      drag_over = False, results_placeholder_display = Stylesheet,
      placeholder_title = Lit [], placeholder_text = Lit [],
      results_content_display = Stylesheet, images_results_section_display = Stylesheet,
      loader_display = Stylesheet, regenerated_image_loader_display = Stylesheet,
      regenerated_image_display = Stylesheet, regenerated_image_src = Lit [],
      regenerated_image_placeholder_display = Stylesheet, original_image_src = Lit [],
      results_title = Lit [], overall_score_text = Lit [],
      overall_score_background = Css [], scorecard_container = [], strengths_list = [],
      refinement_plan_text = Lit [], alerts = [], console_errors = [], fetch_log = [],
      pending = []\<rparr>"

definition png_file :: jsfile where
  "png_file = \<lparr>file_name = ''ad.png'', file_type = ''image/png'', file_data = ''PNG''\<rparr>"

definition pdf_file :: jsfile where
  "pdf_file = \<lparr>file_name = ''notes.pdf'', file_type = ''application/pdf'', file_data = ''PDF''\<rparr>"

definition dimension :: "real \<Rightarrow> string \<Rightarrow> jsval" where
  "dimension x fb = Object [(''score'', Number (Fin x)), (''feedback'', String fb)]"

text \<open>A critique as \<^verbatim>\<open>/evaluate\<close> returns it: the scorecard has the four dimensions, the
  overall score and the further entries \<open>extra\<close>.\<close>

definition critique :: "string \<Rightarrow> (string \<times> jsval) list \<Rightarrow> jsval" where
  "critique plan extra =
     Object
      [(''brand_name'', String ''Nike''),
       (''original_image'', String ''data:image/png;base64,AAAA''),
       (''scorecard'',
        Object
         ([(''brand_alignment'', dimension 0.85 ''On brand''),
           (''visual_quality'', dimension 0.78 ''Slightly soft''),
           (''message_clarity'', dimension 0.82 ''Clear''),
           (''safety_ethics'', dimension 0.9 ''No issues''),
           (''overall_score'', Number (Fin 0.84))] @ extra)),
       (''refinement_plan'', String plan)]"

definition ok_response :: "jsval \<Rightarrow> fetch_outcome" where
  "ok_response data = FetchResolved \<lparr>status = 200, body_json = JsonParsed data\<rparr>"

text \<open>A 500 response whose body is the plain text \<^verbatim>\<open>Internal Server Error\<close>, so that
  \<^verbatim>\<open>response.json()\<close> rejects, and one whose \<^verbatim>\<open>detail\<close> is the empty string.\<close>

definition plain_text_500 :: fetch_outcome where
  "plain_text_500 =
     FetchResolved
       \<lparr>status = 500, body_json = JsonRejected ''Unexpected token I in JSON at position 0''\<rparr>"

text \<open>A 500 response with a \<^verbatim>\<open>detail\<close>, and a 503 response whose body is \<^verbatim>\<open>{}\<close>.\<close>

definition detail_500 :: fetch_outcome where
  "detail_500 =
     FetchResolved
       \<lparr>status = 500,
        body_json = JsonParsed (Object [(''detail'', String ''vision service unavailable'')])\<rparr>"

definition no_detail_503 :: fetch_outcome where
  "no_detail_503 = FetchResolved \<lparr>status = 503, body_json = JsonParsed (Object [])\<rparr>"

definition empty_detail_500 :: fetch_outcome where
  "empty_detail_500 =
     FetchResolved \<lparr>status = 500, body_json = JsonParsed (Object [(''detail'', String [])])\<rparr>"

text \<open>A response that is ok whose body has a refinement plan but no scorecard.\<close>

definition plan_only :: "string \<Rightarrow> fetch_outcome" where
  "plan_only plan = ok_response (Object [(''refinement_plan'', String plan)])"

text \<open>The page after an image has been chosen and submitted: one evaluation request is
  pending.\<close>

definition submitted_page :: state where
  "submitted_page = submit_click (handleFile (Some png_file) (page_load blank_page))"

section \<open>Evaluating and unfolding the model\<close>

lemmas display_defs =
  showLoadingState_def showErrorState_def displayRegeneratedImage_def on_read_def
  render_strengths_def render_before_strengths_def render_after_strengths_def
  displayCritiqueResults_def js_gt0_def percent_def score_color_def string_number_def
  primitive_type_error_def
  getScoreColor_def success_color_def warning_color_def danger_color_def
  no_strengths_text_def

lemmas handler_defs =
  page_load_def handleFile_def rejection_text_def image_upload_change_def
  upload_area_dragover_def upload_area_dragleave_def upload_area_drop_def
  fetch_def evaluate_request_def regenerate_request_def http_error_def
  submit_click_def submit_catch_def submit_resume_def no_plan_text_def
  regenerate_click_def regenerate_catch_def regenerate_finally_def regenerate_resume_def
  is_evaluate_def is_regenerate_def evaluations_in_flight_def step_def response_ok_def
  received_plan_def

lemmas example_defs =
  blank_page_def png_file_def pdf_file_def dimension_def critique_def ok_response_def
  plain_text_500_def empty_detail_500_def submitted_page_def detail_500_def
  no_detail_503_def plan_only_def


section \<open>What the renderer leaves alone\<close>

lemma on_read_cases:
  "on_read r s k = Some (s', c) \<Longrightarrow>
     (\<exists>e. r = Inl e \<and> s' = s \<and> c = Threw e) \<or> (\<exists>v. r = Inr v \<and> k v = Some (s', c))"
  by (auto simp: on_read_def split: sum.splits)

lemma render_cards_frame:
  "render_cards cs s = Some (s', c) \<Longrightarrow>
     currentRefinementPlan s' = currentRefinementPlan s \<and> fetch_log s' = fetch_log s
     \<and> pending s' = pending s"
proof (induction cs arbitrary: s)
  case Nil
  then show ?case by simp
next
  case (Cons a cs)
  obtain title details where a: "a = (title, details)" by (cases a)
  from Cons.prems show ?case
    unfolding a render_cards.simps
    by (auto dest!: on_read_cases dest: Cons.IH)
qed

lemma append_strengths_frame:
  "append_strengths xs s = (s', c) \<Longrightarrow>
     currentRefinementPlan s' = currentRefinementPlan s \<and> fetch_log s' = fetch_log s
     \<and> pending s' = pending s"
  by (induction xs arbitrary: s) (auto split: sum.splits)

lemma render_strengths_frame:
  "render_strengths v s = Some (s', c) \<Longrightarrow>
     currentRefinementPlan s' = currentRefinementPlan s \<and> fetch_log s' = fetch_log s
     \<and> pending s' = pending s"
  by (auto simp: render_strengths_def Let_def
        split: if_splits option.splits bool.splits jsval.splits
        dest!: on_read_cases append_strengths_frame)

lemma render_before_strengths_plan:
  assumes "render_before_strengths data s = Some (s', c)"
  shows "currentRefinementPlan s' =
     (case get_prop data ''refinement_plan'' of
        Inl e \<Rightarrow> currentRefinementPlan s | Inr p \<Rightarrow> p)"
  using assms unfolding render_before_strengths_def Let_def
  by (auto simp del: render_cards.simps dest!: on_read_cases render_cards_frame)

lemma render_before_strengths_frame:
  assumes "render_before_strengths data s = Some (s', c)"
  shows "fetch_log s' = fetch_log s \<and> pending s' = pending s"
  using assms unfolding render_before_strengths_def Let_def
  by (auto simp del: render_cards.simps dest!: on_read_cases render_cards_frame)

lemma render_after_strengths_frame:
  "render_after_strengths data s = Some (s', c) \<Longrightarrow>
     currentRefinementPlan s' = currentRefinementPlan s \<and> fetch_log s' = fetch_log s
     \<and> pending s' = pending s"
  by (auto simp: render_after_strengths_def dest!: on_read_cases)

lemma displayCritiqueResults_plan:
  assumes "displayCritiqueResults data s = Some (s', c)"
  shows "currentRefinementPlan s' =
     (case get_prop data ''refinement_plan'' of
        Inl e \<Rightarrow> currentRefinementPlan s | Inr p \<Rightarrow> p)"
proof -
  from assms obtain s1 c1 where h: "render_before_strengths data s = Some (s1, c1)"
    and p: "currentRefinementPlan s' = currentRefinementPlan s1"
    unfolding displayCritiqueResults_def
    by (auto dest!: on_read_cases render_strengths_frame render_after_strengths_frame
          split: option.splits completion.splits prod.splits)
  from render_before_strengths_plan [OF h] p show ?thesis by simp
qed

lemma displayCritiqueResults_frame:
  assumes "displayCritiqueResults data s = Some (s', c)"
  shows "fetch_log s' = fetch_log s \<and> pending s' = pending s"
  using assms unfolding displayCritiqueResults_def
  by (auto dest!: on_read_cases render_strengths_frame render_after_strengths_frame
        render_before_strengths_frame
        split: option.splits completion.splits prod.splits)

lemma submit_catch_frame:
  "currentRefinementPlan (submit_catch e s) = currentRefinementPlan s"
  "fetch_log (submit_catch e s) = fetch_log s"
  "pending (submit_catch e s) = pending s"
  by (simp_all add: submit_catch_def showErrorState_def)

lemma submit_resume_plan:
  assumes "submit_resume outcome s = Some s'"
  shows "currentRefinementPlan s' =
     (case received_plan outcome of Some p \<Rightarrow> p | None \<Rightarrow> currentRefinementPlan s)"
  using assms
  by (auto simp: submit_resume_def received_plan_def submit_catch_frame
        split: fetch_outcome.splits json_outcome.splits if_splits option.splits
          prod.splits completion.splits sum.splits
        dest!: displayCritiqueResults_plan)

lemma submit_resume_frame:
  assumes "submit_resume outcome s = Some s'"
  shows "fetch_log s' = fetch_log s \<and> pending s' = pending s"
  using assms
  by (auto simp: submit_resume_def submit_catch_frame
        split: fetch_outcome.splits json_outcome.splits if_splits option.splits
          prod.splits completion.splits
        dest!: displayCritiqueResults_frame)

lemma regenerate_resume_frame:
  "currentRefinementPlan (regenerate_resume outcome s) = currentRefinementPlan s"
  "fetch_log (regenerate_resume outcome s) = fetch_log s"
  by (simp_all add: regenerate_resume_def regenerate_finally_def regenerate_catch_def
        displayRegeneratedImage_def Let_def
        split: fetch_outcome.splits json_outcome.splits sum.splits)

lemma handleFile_frame:
  "currentRefinementPlan (handleFile fo s) = currentRefinementPlan s"
  "fetch_log (handleFile fo s) = fetch_log s"
  by (simp_all add: handleFile_def split: option.splits)

lemma step_plan:
  assumes "step e s = Some s'"
  shows "currentRefinementPlan s' = last_plan [e] (currentRefinementPlan s)"
proof (cases e)
  case (EvaluateSettled outcome)
  with assms show ?thesis
    by (auto simp: step_def split: if_splits option.splits dest!: submit_resume_plan)
next
  case (RegenerateSettled outcome)
  with assms show ?thesis
    by (auto simp: step_def regenerate_resume_frame split: if_splits)
qed (use assms in \<open>auto simp: step_def handleFile_frame image_upload_change_def
      upload_area_dragover_def upload_area_dragleave_def upload_area_drop_def
      submit_click_def regenerate_click_def fetch_def showLoadingState_def Let_def
      split: if_splits option.splits\<close>)

lemma last_plan_Cons: "last_plan (e # es) p = last_plan es (last_plan [e] p)"
  by (cases e) simp_all

lemma run_plan:
  "run evs s = Some s' \<Longrightarrow> currentRefinementPlan s' = last_plan evs (currentRefinementPlan s)"
proof (induction evs arbitrary: s)
  case Nil
  then show ?case by simp
next
  case (Cons e evs)
  from Cons.prems obtain s1 where s1: "step e s = Some s1" and r: "run evs s1 = Some s'"
    by (auto split: option.splits)
  from Cons.IH [OF r] step_plan [OF s1] show ?case
    by (simp only: last_plan_Cons [of e evs])
qed

lemma step_fetch_log:
  assumes "step e s = Some s'"
  shows "fetch_log s' = fetch_log s @
     (case e of
        SubmitClicked \<Rightarrow> (case imageFile s of Some f \<Rightarrow> [evaluate_request f] | None \<Rightarrow> [])
      | RegenerateClicked \<Rightarrow>
          (if truthy (currentRefinementPlan s)
           then [regenerate_request (currentRefinementPlan s)] else [])
      | _ \<Rightarrow> [])"
proof (cases e)
  case (EvaluateSettled outcome)
  with assms show ?thesis
    by (auto simp: step_def split: if_splits dest!: submit_resume_frame)
next
  case (RegenerateSettled outcome)
  with assms show ?thesis
    by (auto simp: step_def regenerate_resume_frame split: if_splits)
qed (use assms in \<open>auto simp: step_def handleFile_frame image_upload_change_def
      upload_area_dragover_def upload_area_dragleave_def upload_area_drop_def
      submit_click_def regenerate_click_def fetch_def showLoadingState_def Let_def
      split: if_splits option.splits\<close>)

lemma last_plan_none:
  "list_all delivers_no_plan evs \<Longrightarrow> last_plan evs p = p"
proof (induction evs arbitrary: p)
  case Nil
  then show ?case by simp
next
  case (Cons e evs)
  then show ?case by (cases e) auto
qed

lemma run_no_regenerate_request:
  "run evs s = Some s' \<Longrightarrow> list_all delivers_no_plan evs \<Longrightarrow> \<not> truthy (currentRefinementPlan s)
   \<Longrightarrow> filter is_regenerate (fetch_log s') = filter is_regenerate (fetch_log s)"
proof (induction evs arbitrary: s)
  case Nil
  then show ?case by simp
next
  case (Cons e evs)
  from Cons.prems obtain s1 where s1: "step e s = Some s1" and r: "run evs s1 = Some s'"
    by (auto split: option.splits)
  have e: "delivers_no_plan e" and es: "list_all delivers_no_plan evs"
    using Cons.prems by simp_all
  have p1: "currentRefinementPlan s1 = currentRefinementPlan s"
    using step_plan [OF s1] last_plan_none [of "[e]"] e by simp
  have l1: "filter is_regenerate (fetch_log s1) = filter is_regenerate (fetch_log s)"
    using step_fetch_log [OF s1] Cons.prems(3)
    by (auto simp: is_regenerate_def evaluate_request_def split: event.splits option.splits)
  from Cons.IH [OF r es] p1 l1 Cons.prems(3) show ?case by simp
qed

section \<open>Properties of the score colour\<close>

text \<open>The script's literal \<^verbatim>\<open>0.8\<close> and the real \<open>4/5\<close> accept the same binary64 values.\<close>

lemma literal_08_value: "literal_08 = 7205759403792794 / 2 ^ 53"
  by (simp add: literal_08_def binary64_value_def powr_minus_divide del: power_numeral)

lemma literal_08_ge: "4 / 5 \<le> literal_08"
  unfolding literal_08_value by simp

lemma small_exponent:
  assumes "\<bar>m\<bar> < 2 ^ 53" and "e < - 53"
  shows "binary64_value m e < 4 / 5"
proof -
  have "2 powr real_of_int e \<le> 2 powr (- 54)"
    using assms(2) by (intro powr_mono) auto
  also have "\<dots> = 1 / 2 ^ 54"
    by (simp add: powr_minus_divide del: power_numeral)
  finally have p: "2 powr real_of_int e \<le> 1 / 2 ^ 54" .
  have "m < 2 ^ 53" using assms(1) by linarith
  then have "real_of_int m < real_of_int (2 ^ 53)"
    by (simp only: of_int_less_iff)
  then have m: "real_of_int m \<le> 2 ^ 53" by simp
  have "real_of_int m * 2 powr real_of_int e \<le> 2 ^ 53 * (1 / 2 ^ 54)"
  proof (cases "0 \<le> m")
    case True
    then show ?thesis using p m by (intro mult_mono) auto
  next
    case False
    then have "real_of_int m * 2 powr real_of_int e \<le> 0"
      by (simp add: mult_le_0_iff)
    then show ?thesis by simp
  qed
  then show ?thesis by (simp add: binary64_value_def)
qed

lemma double_threshold_08:
  assumes "\<bar>m\<bar> < 2 ^ 53"
  shows "literal_08 \<le> binary64_value m e \<longleftrightarrow> 4 / 5 \<le> binary64_value m e"
proof
  assume "literal_08 \<le> binary64_value m e"
  with literal_08_ge show "4 / 5 \<le> binary64_value m e" by linarith
next
  assume a: "4 / 5 \<le> binary64_value m e"
  have e: "- 53 \<le> e"
  proof (rule ccontr)
    assume "\<not> - 53 \<le> e"
    then have "e < - 53" by simp
    from small_exponent [OF assms this] a show False by linarith
  qed
  define k where "k = m * 2 ^ nat (e + 53)"
  have "2 powr real_of_int e = 2 powr real_of_int (e + 53) * 2 powr (- 53)"
    by (simp add: powr_add [symmetric])
  also have "2 powr real_of_int (e + 53) = 2 ^ nat (e + 53)"
    using e powr_real_of_int [of 2 "e + 53"] by simp
  also have "(2::real) powr (- 53) = 1 / 2 ^ 53"
    by (simp add: powr_minus_divide del: power_numeral)
  finally have x: "binary64_value m e = real_of_int k / 2 ^ 53"
    by (simp add: binary64_value_def k_def)
  from a x have "4 / 5 \<le> real_of_int k / 2 ^ 53" by simp
  then have "real_of_int (4 * 2 ^ 53) \<le> real_of_int (5 * k)"
    by (simp add: field_simps)
  then have "4 * 2 ^ 53 \<le> 5 * k"
    by (simp only: of_int_le_iff)
  then have "7205759403792794 \<le> k" by simp
  then have "real_of_int 7205759403792794 \<le> real_of_int k"
    by (simp only: of_int_le_iff)
  then have "literal_08 \<le> real_of_int k / 2 ^ 53"
    unfolding literal_08_value by (simp add: divide_right_mono)
  with x show "literal_08 \<le> binary64_value m e" by simp
qed

lemma getScoreColor_binary64:
  assumes "\<bar>m\<bar> < 2 ^ 53"
  shows "getScoreColor (Fin (binary64_value m e)) =
     (if literal_08 \<le> binary64_value m e then success_color
      else if 1 / 2 \<le> binary64_value m e then warning_color
      else danger_color)"
  using double_threshold_08 [OF assms, of e] by (simp add: getScoreColor_def)

lemma colors_distinct:
  "success_color \<noteq> warning_color" "success_color \<noteq> danger_color"
  "warning_color \<noteq> danger_color"
  by (simp_all add: success_color_def warning_color_def danger_color_def)

text \<open>
  Claim C1. For every (finite) score \<open>s\<close> the classification is favorable exactly when
  \<open>s \<ge> 0.8\<close>, caution exactly when \<open>0.5 \<le> s < 0.8\<close>, and unfavorable exactly when
  \<open>s < 0.5\<close>; both boundaries are inclusive: \<open>0.8\<close> is favorable and \<open>0.5\<close> is caution.
\<close>

theorem getScoreColor_tiers:
  "(getScoreColor (Fin s) = success_color \<longleftrightarrow> 0.8 \<le> s)
   \<and> (getScoreColor (Fin s) = warning_color \<longleftrightarrow> 0.5 \<le> s \<and> s < 0.8)
   \<and> (getScoreColor (Fin s) = danger_color \<longleftrightarrow> s < 0.5)
   \<and> getScoreColor (Fin 0.8) = success_color
   \<and> getScoreColor (Fin 0.5) = warning_color"
  using colors_distinct by (auto simp: getScoreColor_def)

text \<open>
  Claim C9. The classification is total on numbers: for every number, NaN and the values
  outside \<open>[0,1]\<close> included, the result is one of the three (pairwise different) colours,
  and every input for which neither \<^verbatim>\<open>s >= 0.8\<close> nor \<^verbatim>\<open>s >= 0.5\<close> holds, NaN among them,
  is unfavorable.
\<close>

theorem getScoreColor_total:
  "getScoreColor s \<in> {success_color, warning_color, danger_color}
   \<and> (\<not> num_ge s 0.8 \<and> \<not> num_ge s 0.5 \<longrightarrow> getScoreColor s = danger_color)
   \<and> getScoreColor NaN = danger_color
   \<and> success_color \<noteq> warning_color \<and> success_color \<noteq> danger_color
   \<and> warning_color \<noteq> danger_color"
  using colors_distinct by (simp add: getScoreColor_def)

theorem getScoreColor_total_witness:
  "\<not> num_ge NaN 0.8 \<and> \<not> num_ge NaN 0.5 \<and> getScoreColor NaN = danger_color
   \<and> \<not> num_ge (Fin (-3)) 0.8 \<and> \<not> num_ge (Fin (-3)) 0.5
   \<and> getScoreColor (Fin (-3)) = danger_color
   \<and> getScoreColor (Fin 7) = success_color \<and> getScoreColor PosInf = success_color
   \<and> getScoreColor NegInf = danger_color"
  using getScoreColor_total [of NaN] getScoreColor_total [of "Fin (-3)"]
  by (simp add: getScoreColor_def)


section \<open>File intake\<close>

text \<open>
  Claim C4. A selected file is accepted if and only if its declared media type begins
  with \<^verbatim>\<open>image/\<close>. On acceptance the candidate is stored, its name is displayed and
  submission is enabled; on rejection any prior candidate is cleared, the fixed rejection
  message is displayed and submission is disabled. Choosing or dropping a file always
  yields a state: no exception is raised.
\<close>

theorem handleFile_accepts_images_only:
  "(imageFile (handleFile (Some f) s) = Some f \<longleftrightarrow> prefix ''image/'' (file_type f))
   \<and> (prefix ''image/'' (file_type f) \<longrightarrow>
        imageFile (handleFile (Some f) s) = Some f
        \<and> file_name_text (handleFile (Some f) s) = Lit (file_name f)
        \<and> \<not> submit_disabled (handleFile (Some f) s))
   \<and> (\<not> prefix ''image/'' (file_type f) \<longrightarrow>
        imageFile (handleFile (Some f) s) = None
        \<and> file_name_text (handleFile (Some f) s) = Lit ''Please select a valid image file.''
        \<and> submit_disabled (handleFile (Some f) s))
   \<and> step (FileChosen (Some f)) s = Some (handleFile (Some f) s)
   \<and> step (Dropped (Some f)) s = Some (handleFile (Some f) (s\<lparr>drag_over := False\<rparr>))"
  by (simp add: handleFile_def rejection_text_def step_def image_upload_change_def
        upload_area_drop_def)

theorem handleFile_accepts_images_only_witness:
  "prefix ''image/'' (file_type png_file)
   \<and> imageFile (handleFile (Some png_file) submitted_page) = Some png_file
   \<and> file_name_text (handleFile (Some png_file) blank_page) = Lit ''ad.png''
   \<and> \<not> submit_disabled (handleFile (Some png_file) blank_page)
   \<and> \<not> prefix ''image/'' (file_type pdf_file)
   \<and> imageFile (handleFile (Some pdf_file) submitted_page) = None
   \<and> file_name_text (handleFile (Some pdf_file) submitted_page)
       = Lit ''Please select a valid image file.''
   \<and> submit_disabled (handleFile (Some pdf_file) submitted_page)"
proof -
  have png: "prefix ''image/'' (file_type png_file)"
    and pdf: "\<not> prefix ''image/'' (file_type pdf_file)"
    by (simp_all add: png_file_def pdf_file_def)
  from handleFile_accepts_images_only [of png_file submitted_page]
       handleFile_accepts_images_only [of png_file blank_page]
       handleFile_accepts_images_only [of pdf_file submitted_page] png pdf
  show ?thesis by (simp add: png_file_def)
qed

section \<open>Regeneration without a plan\<close>

text \<open>
  Claim C5. If regeneration is invoked before any evaluation has delivered a refinement
  plan, the plan is still \<^verbatim>\<open>null\<close> and the click handler only raises the prompt: no request
  is issued, and no regeneration request has ever been issued.
\<close>

theorem regenerate_refused_without_plan:
  assumes "run evs (page_load d) = Some s"
      and "list_all delivers_no_plan evs"
  shows "currentRefinementPlan s = Null
     \<and> regenerate_click s = s\<lparr>alerts := alerts s @ [''No refinement plan available to generate from.'']\<rparr>
     \<and> fetch_log (regenerate_click s) = fetch_log s
     \<and> pending (regenerate_click s) = pending s
     \<and> filter is_regenerate (fetch_log (regenerate_click s)) = []"
proof -
  have p: "currentRefinementPlan s = Null"
    using run_plan [OF assms(1)] last_plan_none [OF assms(2)] by (simp add: page_load_def)
  have l: "filter is_regenerate (fetch_log s) = []"
    using run_no_regenerate_request [OF assms] by (simp add: page_load_def)
  from p l show ?thesis by (simp add: regenerate_click_def no_plan_text_def)
qed

theorem regenerate_refused_without_plan_witness:
  "list_all delivers_no_plan [FileChosen (Some png_file), SubmitClicked, EvaluateSettled plain_text_500]
   \<and> map_option (\<lambda>s. alerts (regenerate_click s))
        (run [FileChosen (Some png_file), SubmitClicked, EvaluateSettled plain_text_500]
           (page_load blank_page))
       = Some [''No refinement plan available to generate from.'']
   \<and> map_option (\<lambda>s. filter is_regenerate (fetch_log (regenerate_click s)))
        (run [FileChosen (Some png_file), SubmitClicked, EvaluateSettled plain_text_500]
           (page_load blank_page))
       = Some []"
proof -
  let ?evs = "[FileChosen (Some png_file), SubmitClicked, EvaluateSettled plain_text_500]"
  define s where "s = the (run ?evs (page_load blank_page))"
  have h1: "run ?evs (page_load blank_page) = Some s"
    unfolding s_def by (simp add: handler_defs display_defs example_defs)
  have h2: "list_all delivers_no_plan ?evs"
    by (simp add: handler_defs example_defs)
  have h3: "alerts s = []"
    unfolding s_def by (simp add: handler_defs display_defs example_defs)
  note t = regenerate_refused_without_plan [OF h1 h2]
  from t h3 have a: "alerts (regenerate_click s) = [''No refinement plan available to generate from.'']"
    by simp
  from t have b: "filter is_regenerate (fetch_log (regenerate_click s)) = []"
    by blast
  from a b h2 show ?thesis
    unfolding h1 by simp
qed

section \<open>Resubmission while an evaluation is in flight\<close>

text \<open>
  Claim C3 says that resubmission is not possible while an evaluation request is in
  flight. The submit handler never disables its button (only \<open>handleFile\<close> writes
  \<^verbatim>\<open>submitButton.disabled\<close>), so a second click while the first request is pending issues a
  second request: two evaluation requests are in flight. The regenerate handler does
  disable its button while its request is pending, so a second click cannot happen there.
\<close>

theorem resubmission_while_submitting:
  "map_option evaluations_in_flight
     (run [FileChosen (Some png_file), SubmitClicked] (page_load blank_page)) = Some 1
   \<and> map_option evaluations_in_flight
     (run [FileChosen (Some png_file), SubmitClicked, SubmitClicked] (page_load blank_page)) = Some 2
   \<and> map_option submit_disabled
     (run [FileChosen (Some png_file), SubmitClicked] (page_load blank_page)) = Some False
   \<and> map_option regenerate_disabled
     (run [FileChosen (Some png_file), SubmitClicked,
           EvaluateSettled (ok_response (critique ''Use red'' [])), RegenerateClicked]
        (page_load blank_page)) = Some True
   \<and> run [FileChosen (Some png_file), SubmitClicked,
           EvaluateSettled (ok_response (critique ''Use red'' [])), RegenerateClicked,
           RegenerateClicked] (page_load blank_page) = None"
  by (simp add: handler_defs display_defs example_defs)


section \<open>The refinement plan\<close>

text \<open>
  Claim C2. Whenever a regeneration request is issued, the \<^verbatim>\<open>refinement_plan\<close> value in its
  JSON body is the value most recently delivered by a successful evaluation response,
  itself and untransformed: after any run from page load, a click on the regenerate
  button issues at most one request, to \<^verbatim>\<open>/regenerate\<close>, whose body is
  \<^verbatim>\<open>JSON.stringify({ refinement_plan: p })\<close> for that value \<open>p\<close>, and the click does not change
  the stored plan.
\<close>

theorem regeneration_carries_last_plan:
  assumes "run evs (page_load d) = Some s"
      and "step RegenerateClicked s = Some s'"
  shows "currentRefinementPlan s = last_plan evs Null
     \<and> fetch_log s' = fetch_log s @
          (if truthy (last_plan evs Null)
           then [\<lparr>url = ''/regenerate'', http_method = ''POST'',
                  headers = [(''Content-Type'', ''application/json'')],
                  body = JsonStringify (Object [(''refinement_plan'', last_plan evs Null)])\<rparr>]
           else [])
     \<and> currentRefinementPlan s' = last_plan evs Null"
proof -
  have p: "currentRefinementPlan s = last_plan evs Null"
    using run_plan [OF assms(1)] by (simp add: page_load_def)
  from step_fetch_log [OF assms(2)] step_plan [OF assms(2)] p show ?thesis
    by (simp add: regenerate_request_def)
qed

theorem regeneration_carries_last_plan_witness:
  "last_plan [FileChosen (Some png_file), SubmitClicked,
              EvaluateSettled (ok_response (critique ''Use the brand red'' [])),
              SubmitClicked, EvaluateSettled plain_text_500] Null = String ''Use the brand red''
   \<and> map_option fetch_log
        (run [FileChosen (Some png_file), SubmitClicked,
              EvaluateSettled (ok_response (critique ''Use the brand red'' [])),
              SubmitClicked, EvaluateSettled plain_text_500, RegenerateClicked]
           (page_load blank_page))
       = Some [evaluate_request png_file, evaluate_request png_file,
               \<lparr>url = ''/regenerate'', http_method = ''POST'',
                 headers = [(''Content-Type'', ''application/json'')],
                 body = JsonStringify
                   (Object [(''refinement_plan'', String ''Use the brand red'')])\<rparr>]"
proof -
  let ?evs = "[FileChosen (Some png_file), SubmitClicked,
              EvaluateSettled (ok_response (critique ''Use the brand red'' [])),
              SubmitClicked, EvaluateSettled plain_text_500]"
  define s where "s = the (run ?evs (page_load blank_page))"
  define s' where "s' = the (step RegenerateClicked s)"
  have h1: "run ?evs (page_load blank_page) = Some s"
    unfolding s_def by (simp add: handler_defs display_defs example_defs)
  have h2: "step RegenerateClicked s = Some s'"
    unfolding s'_def s_def by (simp add: handler_defs display_defs example_defs)
  have h3: "fetch_log s = [evaluate_request png_file, evaluate_request png_file]"
    unfolding s_def by (simp add: handler_defs display_defs example_defs)
  have h4: "last_plan ?evs Null = String ''Use the brand red''"
    by (simp add: handler_defs example_defs)
  have h5: "run (?evs @ [RegenerateClicked]) (page_load blank_page) = Some s'"
    unfolding s'_def s_def by (simp add: handler_defs display_defs example_defs)
  from regeneration_carries_last_plan [OF h1 h2] h3 h4
  have "fetch_log s' = [evaluate_request png_file, evaluate_request png_file,
               \<lparr>url = ''/regenerate'', http_method = ''POST'',
                 headers = [(''Content-Type'', ''application/json'')],
                 body = JsonStringify
                   (Object [(''refinement_plan'', String ''Use the brand red'')])\<rparr>]"
    by simp
  with h4 h5 show ?thesis by simp
qed

text \<open>
  Claim C7 as worded fails on the script: a response that is ok whose body has a
  refinement plan but no scorecard stores the new plan at line 148, then throws at line
  163, and the \<^verbatim>\<open>catch\<close> clause shows the failure panel. The evaluation has failed and the
  plan retained from the earlier success has been overwritten.
\<close>

theorem evaluation_failure_keeps_plan_counterexample:
  "map_option currentRefinementPlan
     (run [FileChosen (Some png_file), SubmitClicked,
           EvaluateSettled (ok_response (critique ''A'' [])), SubmitClicked]
        (page_load blank_page)) = Some (String ''A'')
   \<and> map_option (\<lambda>s. (placeholder_title s, results_placeholder_display s, loader_display s,
                       regenerate_display s, currentRefinementPlan s))
     (run [FileChosen (Some png_file), SubmitClicked,
           EvaluateSettled (ok_response (critique ''A'' [])), SubmitClicked,
           EvaluateSettled (plan_only ''B'')]
        (page_load blank_page))
     = Some (Lit ''Analysis Failed'', DisplayFlex, DisplayNone, DisplayNone, String ''B'')"
  by (simp add: handler_defs display_defs example_defs)

text \<open>
  Claim C7, amended. An evaluation that fails because the request is rejected, the
  response is not ok or its body is not JSON leaves the stored refinement plan unchanged.
  The plan changes only when a response that is ok delivers a parsed body, and then to
  that body's \<^verbatim>\<open>refinement_plan\<close>; neither \<open>showErrorState\<close> nor the \<^verbatim>\<open>catch\<close> clause writes
  it.
\<close>

theorem evaluation_failure_keeps_plan:
  assumes "step (EvaluateSettled outcome) s = Some s'"
  shows "(evaluation_failure outcome \<longrightarrow> currentRefinementPlan s' = currentRefinementPlan s)
     \<and> (currentRefinementPlan s' \<noteq> currentRefinementPlan s \<longrightarrow>
          (\<exists>r data. outcome = FetchResolved r \<and> response_ok r \<and> body_json r = JsonParsed data
             \<and> get_prop data ''refinement_plan'' = Inr (currentRefinementPlan s')))
     \<and> currentRefinementPlan (showErrorState msg s) = currentRefinementPlan s
     \<and> currentRefinementPlan (submit_catch e s) = currentRefinementPlan s"
proof -
  have p: "currentRefinementPlan s' =
      (case received_plan outcome of Some p \<Rightarrow> p | None \<Rightarrow> currentRefinementPlan s)"
    using step_plan [OF assms] by simp
  have f: "evaluation_failure outcome \<Longrightarrow> received_plan outcome = None"
    by (cases outcome) (auto simp: received_plan_def split: json_outcome.splits)
  have c: "received_plan outcome = Some q \<Longrightarrow>
      \<exists>r data. outcome = FetchResolved r \<and> response_ok r \<and> body_json r = JsonParsed data
         \<and> get_prop data ''refinement_plan'' = Inr q" for q
    by (cases outcome)
       (auto simp: received_plan_def split: json_outcome.splits if_splits sum.splits)
  show ?thesis
  proof (cases "received_plan outcome")
    case None
    with p f show ?thesis by (simp add: submit_catch_frame showErrorState_def)
  next
    case (Some q)
    with p f c [OF Some] show ?thesis
      by (auto simp: submit_catch_frame showErrorState_def)
  qed
qed

theorem evaluation_failure_keeps_plan_witness:
  "evaluation_failure plain_text_500
   \<and> map_option currentRefinementPlan
       (run [FileChosen (Some png_file), SubmitClicked,
             EvaluateSettled (ok_response (critique ''Use the brand red'' [])),
             SubmitClicked] (page_load blank_page)) = Some (String ''Use the brand red'')
   \<and> map_option currentRefinementPlan
       (run [FileChosen (Some png_file), SubmitClicked,
             EvaluateSettled (ok_response (critique ''Use the brand red'' [])),
             SubmitClicked, EvaluateSettled plain_text_500] (page_load blank_page))
       = Some (String ''Use the brand red'')
   \<and> map_option placeholder_title
       (run [FileChosen (Some png_file), SubmitClicked,
             EvaluateSettled (ok_response (critique ''Use the brand red'' [])),
             SubmitClicked, EvaluateSettled plain_text_500] (page_load blank_page))
       = Some (Lit ''Analysis Failed'')"
proof -
  let ?evs = "[FileChosen (Some png_file), SubmitClicked,
              EvaluateSettled (ok_response (critique ''Use the brand red'' [])),
              SubmitClicked]"
  define s where "s = the (run ?evs (page_load blank_page))"
  define s' where "s' = the (step (EvaluateSettled plain_text_500) s)"
  have h1: "run ?evs (page_load blank_page) = Some s"
    unfolding s_def by (simp add: handler_defs display_defs example_defs)
  have h2: "step (EvaluateSettled plain_text_500) s = Some s'"
    unfolding s'_def s_def by (simp add: handler_defs display_defs example_defs)
  have h3: "evaluation_failure plain_text_500"
    by (simp add: plain_text_500_def response_ok_def)
  have h4: "currentRefinementPlan s = String ''Use the brand red''"
    unfolding s_def by (simp add: handler_defs display_defs example_defs)
  have h5: "run (?evs @ [EvaluateSettled plain_text_500]) (page_load blank_page) = Some s'"
    unfolding s'_def s_def by (simp add: handler_defs display_defs example_defs)
  have h6: "placeholder_title s' = Lit ''Analysis Failed''"
    unfolding s'_def s_def by (simp add: handler_defs display_defs example_defs)
  from evaluation_failure_keeps_plan [OF h2] h3 h4
  have "currentRefinementPlan s' = String ''Use the brand red''" by simp
  with h1 h3 h4 h5 h6 show ?thesis by simp
qed




section \<open>A failed regeneration\<close>

lemma regenerate_resume_failure:
  assumes "regeneration_failure outcome"
  shows "\<exists>e. regenerate_resume outcome s = regenerate_finally (regenerate_catch e s)"
  using assms
  by (cases outcome)
     (auto simp: regenerate_resume_def split: json_outcome.splits sum.splits)

lemma regenerate_resume_success:
  assumes "\<not> regeneration_failure outcome"
  shows "\<exists>s1. regenerate_resume outcome s = regenerate_finally s1
           \<and> regenerated_image_placeholder_display s1 = DisplayNone
           \<and> currentRefinementPlan s1 = currentRefinementPlan s"
  using assms
  by (cases outcome)
     (auto simp: regenerate_resume_def displayRegeneratedImage_def regenerate_catch_def Let_def
        split: json_outcome.splits sum.splits)

text \<open>
  Claim C10. When a regeneration request fails, the handler hides the loader and enables
  the button again, and leaves the visibility of the regenerated image and of its
  placeholder as the click left them. So when the failure follows a successful
  regeneration and a further click, neither the image nor the placeholder is displayed.
\<close>

theorem regeneration_failure_restores_nothing:
  assumes "regeneration_failure outcome"
  shows "(step (RegenerateSettled outcome) s = Some s' \<longrightarrow>
            regenerated_image_display s' = regenerated_image_display s
          \<and> regenerated_image_placeholder_display s' = regenerated_image_placeholder_display s
          \<and> regenerated_image_loader_display s' = DisplayNone
          \<and> \<not> regenerate_disabled s')
     \<and> (\<not> regeneration_failure success \<and> truthy (currentRefinementPlan t)
          \<and> run [RegenerateSettled success, RegenerateClicked, RegenerateSettled outcome] t
              = Some t' \<longrightarrow>
            regenerated_image_display t' = DisplayNone
          \<and> regenerated_image_placeholder_display t' = DisplayNone
          \<and> regenerated_image_loader_display t' = DisplayNone
          \<and> \<not> regenerate_disabled t')"
proof (intro conjI impI)
  assume st: "step (RegenerateSettled outcome) s = Some s'"
  obtain e where
    "s' = regenerate_finally (regenerate_catch e (s\<lparr>pending := remove_first is_regenerate (pending s)\<rparr>))"
    using st regenerate_resume_failure [OF assms]
    by (auto simp: step_def split: if_splits)
  then show "regenerated_image_display s' = regenerated_image_display s"
    "regenerated_image_placeholder_display s' = regenerated_image_placeholder_display s"
    "regenerated_image_loader_display s' = DisplayNone"
    "\<not> regenerate_disabled s'"
    by (simp_all add: regenerate_finally_def regenerate_catch_def)
next
  assume h: "\<not> regeneration_failure success \<and> truthy (currentRefinementPlan t)
     \<and> run [RegenerateSettled success, RegenerateClicked, RegenerateSettled outcome] t = Some t'"
  let ?t0 = "t\<lparr>pending := remove_first is_regenerate (pending t)\<rparr>"
  from h obtain s1 where u: "regenerate_resume success ?t0 = regenerate_finally s1"
    and ph: "regenerated_image_placeholder_display s1 = DisplayNone"
    and pl: "currentRefinementPlan s1 = currentRefinementPlan ?t0"
    using regenerate_resume_success by blast
  define t1 where "t1 = regenerate_finally s1"
  have p1: "truthy (currentRefinementPlan t1)"
    using h pl by (simp add: t1_def regenerate_finally_def)
  have ph1: "regenerated_image_placeholder_display t1 = DisplayNone"
    using ph by (simp add: t1_def regenerate_finally_def)
  define t2 where "t2 = regenerate_click t1"
  let ?t2' = "t2\<lparr>pending := remove_first is_regenerate (pending t2)\<rparr>"
  obtain e where e: "regenerate_resume outcome ?t2' = regenerate_finally (regenerate_catch e ?t2')"
    using regenerate_resume_failure [OF assms] by blast
  from h u have "t' = regenerate_resume outcome ?t2'"
    by (auto simp: step_def t1_def t2_def split: if_splits option.splits)
  with e have t': "t' = regenerate_finally (regenerate_catch e ?t2')" by simp
  show "regenerated_image_display t' = DisplayNone"
    "regenerated_image_placeholder_display t' = DisplayNone"
    "regenerated_image_loader_display t' = DisplayNone"
    "\<not> regenerate_disabled t'"
    using p1 ph1 unfolding t' t2_def
    by (simp_all add: regenerate_finally_def regenerate_catch_def regenerate_click_def
          fetch_def)
qed

theorem regeneration_failure_restores_nothing_witness:
  "regeneration_failure (FetchRejected ''Failed to fetch'')
   \<and> \<not> regeneration_failure
         (ok_response (Object [(''regenerated_image_url'', String ''https://x/y.png'')]))
   \<and> map_option (\<lambda>s. (regenerated_image_display s, regenerated_image_placeholder_display s))
        (run [FileChosen (Some png_file), SubmitClicked,
              EvaluateSettled (ok_response (critique ''Use the brand red'' [])),
              RegenerateClicked,
              RegenerateSettled
                (ok_response (Object [(''regenerated_image_url'', String ''https://x/y.png'')]))]
           (page_load blank_page))
       = Some (DisplayBlock, DisplayNone)
   \<and> map_option (\<lambda>s. (regenerated_image_display s, regenerated_image_placeholder_display s,
                        regenerated_image_loader_display s, regenerate_disabled s))
        (run [FileChosen (Some png_file), SubmitClicked,
              EvaluateSettled (ok_response (critique ''Use the brand red'' [])),
              RegenerateClicked,
              RegenerateSettled
                (ok_response (Object [(''regenerated_image_url'', String ''https://x/y.png'')])),
              RegenerateClicked, RegenerateSettled (FetchRejected ''Failed to fetch'')]
           (page_load blank_page))
       = Some (DisplayNone, DisplayNone, DisplayNone, False)"
proof -
  let ?ok = "ok_response (Object [(''regenerated_image_url'', String ''https://x/y.png'')])"
  let ?bad = "FetchRejected ''Failed to fetch''"
  let ?pre = "[FileChosen (Some png_file), SubmitClicked,
              EvaluateSettled (ok_response (critique ''Use the brand red'' [])),
              RegenerateClicked]"
  define t where "t = the (run ?pre (page_load blank_page))"
  define t' where "t' = the (run [RegenerateSettled ?ok, RegenerateClicked, RegenerateSettled ?bad] t)"
  have h1: "regeneration_failure ?bad" by simp
  have h2: "\<not> regeneration_failure ?ok"
    by (simp add: ok_response_def response_ok_def)
  have h3: "truthy (currentRefinementPlan t)"
    unfolding t_def by (simp add: handler_defs display_defs example_defs)
  have h4: "run [RegenerateSettled ?ok, RegenerateClicked, RegenerateSettled ?bad] t = Some t'"
    unfolding t'_def t_def by (simp add: handler_defs display_defs example_defs)
  have h5: "run (?pre @ [RegenerateSettled ?ok, RegenerateClicked, RegenerateSettled ?bad])
              (page_load blank_page) = Some t'"
    unfolding t'_def t_def by (simp add: handler_defs display_defs example_defs)
  have h6: "map_option (\<lambda>s. (regenerated_image_display s, regenerated_image_placeholder_display s))
        (run (?pre @ [RegenerateSettled ?ok]) (page_load blank_page)) = Some (DisplayBlock, DisplayNone)"
    by (simp add: handler_defs display_defs example_defs)
  from regeneration_failure_restores_nothing [OF h1, of _ _ ?ok t t'] h2 h3 h4
  have "regenerated_image_display t' = DisplayNone
     \<and> regenerated_image_placeholder_display t' = DisplayNone
     \<and> regenerated_image_loader_display t' = DisplayNone
     \<and> \<not> regenerate_disabled t'"
    by blast
  with h1 h2 h5 h6 show ?thesis by simp
qed



section \<open>The strengths panel\<close>

lemma append_strengths_texts:
  "map text_content vs = map Inr ts \<Longrightarrow>
     append_strengths vs s = (s\<lparr>strengths_list := strengths_list s @ ts\<rparr>, Normal)"
proof (induction vs arbitrary: ts s)
  case Nil
  then show ?case by simp
next
  case (Cons v vs)
  then obtain t ts' where ts: "ts = t # ts'" and t: "text_content v = Inr t"
    and r: "map text_content vs = map Inr ts'"
    by (cases ts) auto
  from Cons.IH [OF r] t show ?case by (simp add: ts)
qed

lemma text_content_strings: "map text_content (map String xs) = map Inr (map Lit xs)"
  by (induction xs) simp_all

lemma append_strengths_length:
  "append_strengths vs s = (s', Normal) \<Longrightarrow>
     length (strengths_list s') = length (strengths_list s) + length vs"
  by (induction vs arbitrary: s) (auto split: sum.splits)

lemma render_strengths_fallback:
  assumes "strengths = Undefined \<or> strengths = Null \<or> strengths = Array []"
  shows "render_strengths strengths s =
     Some (s\<lparr>strengths_list := [Lit no_strengths_text]\<rparr>, Normal)"
  using assms
  by (auto simp: render_strengths_def on_read_def js_gt0_def string_number_def)

lemma render_strengths_array:
  assumes "vs \<noteq> []" and "map text_content vs = map Inr ts"
  shows "render_strengths (Array vs) s = Some (s\<lparr>strengths_list := ts\<rparr>, Normal)"
  using assms append_strengths_texts [OF assms(2), of "s\<lparr>strengths_list := []\<rparr>"]
  by (simp add: render_strengths_def on_read_def js_gt0_def)

lemma render_strengths_nonempty:
  assumes "render_strengths strengths s = Some (s', Normal)"
  shows "strengths_list s' \<noteq> []"
proof -
  have "strengths_list s' = [Lit no_strengths_text]
      \<or> (\<exists>vs. vs \<noteq> [] \<and> append_strengths vs (s\<lparr>strengths_list := []\<rparr>) = (s', Normal))"
    using assms
    by (cases strengths)
       (auto simp: render_strengths_def Let_def on_read_def js_gt0_def
          split: if_splits option.splits bool.splits sum.splits)
  then show ?thesis
    by (auto dest!: append_strengths_length)
qed

text \<open>
  Claim C8. When a critique is rendered (the part of the renderer before the strengths
  panel has completed, and the plan's text can be shown), rendering completes, and the
  strengths panel shows exactly one line, the fixed placeholder, if the strengths list is
  absent, null or empty; if the list is not empty, it shows every strength in order, a
  string verbatim. Whenever rendering completes, the panel is not empty.
\<close>

theorem strengths_panel:
  assumes "render_before_strengths data s = Some (s1, Normal)"
      and "get_prop data ''scorecard'' = Inr scorecard"
      and "get_prop scorecard ''strengths'' = Inr strengths"
      and "get_prop data ''refinement_plan'' = Inr plan"
      and "text_content plan = Inr planText"
  shows "(strengths = Undefined \<or> strengths = Null \<or> strengths = Array [] \<longrightarrow>
            displayCritiqueResults data s =
              Some (s1\<lparr>strengths_list := [Lit ''No specific strengths identified.''],
                       refinement_plan_text := planText,
                       regenerate_display := DisplayBlock\<rparr>, Normal))
     \<and> (\<forall>xs. xs \<noteq> [] \<and> strengths = Array (map String xs) \<longrightarrow>
            displayCritiqueResults data s =
              Some (s1\<lparr>strengths_list := map Lit xs,
                       refinement_plan_text := planText,
                       regenerate_display := DisplayBlock\<rparr>, Normal))
     \<and> (\<forall>vs ts. vs \<noteq> [] \<and> strengths = Array vs \<and> map text_content vs = map Inr ts \<longrightarrow>
            displayCritiqueResults data s =
              Some (s1\<lparr>strengths_list := ts,
                       refinement_plan_text := planText,
                       regenerate_display := DisplayBlock\<rparr>, Normal))
     \<and> (\<forall>s'. displayCritiqueResults data s = Some (s', Normal) \<longrightarrow> strengths_list s' \<noteq> [])"
proof (intro conjI allI impI)
  assume "strengths = Undefined \<or> strengths = Null \<or> strengths = Array []"
  from render_strengths_fallback [OF this] assms
  show "displayCritiqueResults data s =
      Some (s1\<lparr>strengths_list := [Lit ''No specific strengths identified.''],
               refinement_plan_text := planText,
               regenerate_display := DisplayBlock\<rparr>, Normal)"
    by (simp add: displayCritiqueResults_def render_after_strengths_def on_read_def
          no_strengths_text_def)
next
  fix vs ts
  assume h: "vs \<noteq> [] \<and> strengths = Array vs \<and> map text_content vs = map Inr ts"
  then have "render_strengths strengths s1 = Some (s1\<lparr>strengths_list := ts\<rparr>, Normal)"
    using render_strengths_array by blast
  with assms
  show "displayCritiqueResults data s =
      Some (s1\<lparr>strengths_list := ts, refinement_plan_text := planText,
               regenerate_display := DisplayBlock\<rparr>, Normal)"
    by (simp add: displayCritiqueResults_def render_after_strengths_def on_read_def)
next
  fix xs :: "string list"
  assume h: "xs \<noteq> [] \<and> strengths = Array (map String xs)"
  then have "render_strengths strengths s1 = Some (s1\<lparr>strengths_list := map Lit xs\<rparr>, Normal)"
    using render_strengths_array [OF _ text_content_strings, of xs s1] by simp
  with assms
  show "displayCritiqueResults data s =
      Some (s1\<lparr>strengths_list := map Lit xs, refinement_plan_text := planText,
               regenerate_display := DisplayBlock\<rparr>, Normal)"
    by (simp add: displayCritiqueResults_def render_after_strengths_def on_read_def)
next
  fix s'
  assume "displayCritiqueResults data s = Some (s', Normal)"
  with assms obtain s2 where r: "render_strengths strengths s1 = Some (s2, Normal)"
    and a: "render_after_strengths data s2 = Some (s', Normal)"
    by (auto simp: displayCritiqueResults_def on_read_def
          split: option.splits completion.splits prod.splits)
  from a have "strengths_list s' = strengths_list s2"
    by (auto simp: render_after_strengths_def dest!: on_read_cases)
  with render_strengths_nonempty [OF r] show "strengths_list s' \<noteq> []" by simp
qed

theorem strengths_panel_witness:
  "map_option (\<lambda>(s, c). (strengths_list s, c))
      (displayCritiqueResults (critique ''Use the brand red'' []) blank_page)
     = Some ([Lit ''No specific strengths identified.''], Normal)
   \<and> map_option (\<lambda>(s, c). (strengths_list s, c))
      (displayCritiqueResults (critique ''Use the brand red'' [(''strengths'', Array [])])
         blank_page)
     = Some ([Lit ''No specific strengths identified.''], Normal)
   \<and> map_option (\<lambda>(s, c). (strengths_list s, c))
      (displayCritiqueResults
         (critique ''Use the brand red''
            [(''strengths'',
              Array (map String [''Bold logo'', ''Clear call to action'', ''On brand'']))])
         blank_page)
     = Some ([Lit ''Bold logo'', Lit ''Clear call to action'', Lit ''On brand''], Normal)"
proof -
  have head: "render_before_strengths (critique ''Use the brand red'' extra) blank_page
      = Some (fst (the (render_before_strengths (critique ''Use the brand red'' extra)
                          blank_page)), Normal)" for extra
    by (simp add: display_defs example_defs)
  have sc: "get_prop (critique ''Use the brand red'' extra) ''scorecard''
      = Inr (projr (get_prop (critique ''Use the brand red'' extra) ''scorecard''))" for extra
    by (simp add: example_defs)
  have pl: "get_prop (critique ''Use the brand red'' extra) ''refinement_plan''
      = Inr (String ''Use the brand red'')" for extra
    by (simp add: example_defs)
  have pt: "text_content (String ''Use the brand red'') = Inr (Lit ''Use the brand red'')"
    by simp
  have st1: "get_prop (projr (get_prop (critique ''Use the brand red'' []) ''scorecard''))
      ''strengths'' = Inr Undefined"
    by (simp add: example_defs)
  have st2: "get_prop (projr (get_prop (critique ''Use the brand red''
      [(''strengths'', Array [])]) ''scorecard'')) ''strengths'' = Inr (Array [])"
    by (simp add: example_defs)
  have st3: "get_prop (projr (get_prop (critique ''Use the brand red''
      [(''strengths'', Array (map String [''Bold logo'', ''Clear call to action'', ''On brand'']))])
        ''scorecard'')) ''strengths''
      = Inr (Array (map String [''Bold logo'', ''Clear call to action'', ''On brand'']))"
    by (simp add: example_defs)
  from strengths_panel [OF head sc st1 pl pt]
  have a: "map_option (\<lambda>(s, c). (strengths_list s, c))
      (displayCritiqueResults (critique ''Use the brand red'' []) blank_page)
     = Some ([Lit ''No specific strengths identified.''], Normal)"
    by simp
  from strengths_panel [OF head sc st2 pl pt]
  have b: "map_option (\<lambda>(s, c). (strengths_list s, c))
      (displayCritiqueResults (critique ''Use the brand red'' [(''strengths'', Array [])])
         blank_page)
     = Some ([Lit ''No specific strengths identified.''], Normal)"
    by simp
  from strengths_panel [OF head sc st3 pl pt]
  have "displayCritiqueResults
         (critique ''Use the brand red''
            [(''strengths'',
              Array (map String [''Bold logo'', ''Clear call to action'', ''On brand'']))])
         blank_page
     = Some (fst (the (render_before_strengths (critique ''Use the brand red''
            [(''strengths'',
              Array (map String [''Bold logo'', ''Clear call to action'', ''On brand'']))])
                          blank_page))
          \<lparr>strengths_list := map Lit [''Bold logo'', ''Clear call to action'', ''On brand''],
           refinement_plan_text := Lit ''Use the brand red'',
           regenerate_display := DisplayBlock\<rparr>, Normal)"
    by blast
  then have c: "map_option (\<lambda>(s, c). (strengths_list s, c))
      (displayCritiqueResults
         (critique ''Use the brand red''
            [(''strengths'',
              Array (map String [''Bold logo'', ''Clear call to action'', ''On brand'']))])
         blank_page)
     = Some ([Lit ''Bold logo'', Lit ''Clear call to action'', Lit ''On brand''], Normal)"
    by simp
  from a b c show ?thesis by blast
qed

section \<open>The message of a failed evaluation\<close>

text \<open>
  Claim C6 gives the displayed message by a preference order: the server's \<^verbatim>\<open>detail\<close> if
  present, otherwise a generic message with the status code, otherwise the transport
  error's message. As stated it fails on the script: for a 500 response whose body is not
  JSON the message is that of the rejection of \<^verbatim>\<open>response.json()\<close>, not the generic one
  with the status code; and a \<^verbatim>\<open>detail\<close> that is present but empty gives the generic
  message (the script tests \<^verbatim>\<open>errorData.detail || ...\<close>).
\<close>

theorem evaluation_error_message_counterexample:
  "map_option placeholder_text (step (EvaluateSettled plain_text_500) submitted_page)
     = Some (Lit ''An error occurred during evaluation: Unexpected token I in JSON at position 0'')
   \<and> spec_failure_detail plain_text_500 = Lit ''HTTP error! Status: 500''
   \<and> map_option placeholder_text (step (EvaluateSettled plain_text_500) submitted_page)
     \<noteq> Some (cat (Lit ''An error occurred during evaluation: '')
               (spec_failure_detail plain_text_500))
   \<and> map_option placeholder_text (step (EvaluateSettled empty_detail_500) submitted_page)
     = Some (Lit ''An error occurred during evaluation: HTTP error! Status: 500'')
   \<and> spec_failure_detail empty_detail_500 = Lit []
   \<and> map_option placeholder_text (step (EvaluateSettled empty_detail_500) submitted_page)
     \<noteq> Some (cat (Lit ''An error occurred during evaluation: '')
               (spec_failure_detail empty_detail_500))"
  by (simp add: handler_defs display_defs example_defs spec_failure_detail_def show_nat.simps)

text \<open>
  Claim C6, amended. Every failed evaluation (a rejected request, a response that is not
  ok, a body that is not JSON) shows the error panel titled \<^verbatim>\<open>Analysis Failed\<close>; every
  response that is not ok is such a failure. The message is
  \<^verbatim>\<open>An error occurred during evaluation: \<close> followed by: the rejection's message when
  \<^verbatim>\<open>fetch\<close> rejects; and, for a response that is not ok whose body is parsed and has its
  \<^verbatim>\<open>detail\<close> read, the string of the \<^verbatim>\<open>detail\<close> if it is truthy and has one (a non-empty
  string verbatim), or \<^verbatim>\<open>HTTP error! Status: \<close> and the status code if it is not truthy.
\<close>

theorem evaluation_error_message:
  assumes "enabled (EvaluateSettled outcome) s"
      and "evaluation_failure outcome"
  shows "\<exists>s'. step (EvaluateSettled outcome) s = Some s'
      \<and> placeholder_title s' = Lit ''Analysis Failed''
      \<and> results_placeholder_display s' = DisplayFlex
      \<and> loader_display s' = DisplayNone
      \<and> (\<forall>m. outcome = FetchRejected m \<longrightarrow>
            placeholder_text s' = Lit (''An error occurred during evaluation: '' @ m))
      \<and> (\<forall>r errorData detail t.
            outcome = FetchResolved r \<and> body_json r = JsonParsed errorData
            \<and> get_prop errorData ''detail'' = Inr detail
            \<and> truthy detail \<and> js_string detail = Inr t \<longrightarrow>
            placeholder_text s' = cat (Lit ''An error occurred during evaluation: '') t)
      \<and> (\<forall>r errorData detail.
            outcome = FetchResolved r \<and> body_json r = JsonParsed errorData
            \<and> get_prop errorData ''detail'' = Inr detail \<and> \<not> truthy detail \<longrightarrow>
            placeholder_text s' =
              Lit (''An error occurred during evaluation: HTTP error! Status: ''
                   @ show_nat (status r)))
      \<and> (\<forall>r errorData d.
            outcome = FetchResolved r \<and> body_json r = JsonParsed errorData
            \<and> get_prop errorData ''detail'' = Inr (String d) \<and> d \<noteq> [] \<longrightarrow>
            placeholder_text s' = Lit (''An error occurred during evaluation: '' @ d))
      \<and> (\<forall>r. \<not> response_ok r \<longrightarrow> evaluation_failure (FetchResolved r))"
proof (cases outcome)
  case (FetchRejected m)
  with assms show ?thesis
    by (simp add: step_def submit_resume_def submit_catch_def showErrorState_def)
next
  case (FetchResolved r)
  show ?thesis
  proof (cases "body_json r")
    case (JsonRejected m)
    with FetchResolved assms show ?thesis
      by (simp add: step_def submit_resume_def submit_catch_def showErrorState_def
            http_error_def)
  next
    case (JsonParsed errorData)
    with FetchResolved assms have nok: "\<not> response_ok r" by simp
    with JsonParsed FetchResolved assms show ?thesis
      by (cases "get_prop errorData ''detail''")
         (auto simp: step_def submit_resume_def submit_catch_def showErrorState_def
            http_error_def)
  qed
qed

theorem evaluation_error_message_witness:
  "enabled (EvaluateSettled detail_500) submitted_page
   \<and> evaluation_failure detail_500 \<and> evaluation_failure no_detail_503
   \<and> evaluation_failure (FetchRejected ''Failed to fetch'')
   \<and> map_option (\<lambda>s. (placeholder_title s, placeholder_text s))
        (step (EvaluateSettled detail_500) submitted_page)
       = Some (Lit ''Analysis Failed'',
               Lit ''An error occurred during evaluation: vision service unavailable'')
   \<and> map_option placeholder_text (step (EvaluateSettled no_detail_503) submitted_page)
       = Some (Lit ''An error occurred during evaluation: HTTP error! Status: 503'')
   \<and> map_option placeholder_text
        (step (EvaluateSettled (FetchRejected ''Failed to fetch'')) submitted_page)
       = Some (Lit ''An error occurred during evaluation: Failed to fetch'')"
proof -
  have en: "enabled (EvaluateSettled outcome) submitted_page" for outcome
    by (simp add: handler_defs display_defs example_defs)
  have f1: "evaluation_failure detail_500"
    and f2: "evaluation_failure no_detail_503"
    and f3: "evaluation_failure (FetchRejected ''Failed to fetch'')"
    by (simp_all add: detail_500_def no_detail_503_def response_ok_def)
  have d1: "get_prop (Object [(''detail'', String ''vision service unavailable'')]) ''detail''
      = Inr (String ''vision service unavailable'')"
    and d2: "get_prop (Object []) ''detail'' = Inr Undefined"
    by simp_all
  from evaluation_error_message [OF en f1] d1
  have a: "map_option (\<lambda>s. (placeholder_title s, placeholder_text s))
        (step (EvaluateSettled detail_500) submitted_page)
       = Some (Lit ''Analysis Failed'',
               Lit ''An error occurred during evaluation: vision service unavailable'')"
    by (auto simp: detail_500_def)
  from evaluation_error_message [OF en f2] d2
  have b: "map_option placeholder_text (step (EvaluateSettled no_detail_503) submitted_page)
       = Some (Lit ''An error occurred during evaluation: HTTP error! Status: 503'')"
    by (auto simp: no_detail_503_def show_nat.simps)
  from evaluation_error_message [OF en f3]
  have c: "map_option placeholder_text
        (step (EvaluateSettled (FetchRejected ''Failed to fetch'')) submitted_page)
       = Some (Lit ''An error occurred during evaluation: Failed to fetch'')"
    by auto
  from en f1 f2 f3 a b c show ?thesis by blast
qed




end
